theory Spec2Isabelle
  imports Complex_Main "HOL-Library.Char_ord" "HOL-Library.List_Lexorder"
    "HOL-Library.Product_Lexorder" "HOL-Library.Log_Nat" "HOL-Library.Sublist"
begin

section \<open>Python values used by \<open>app.py\<close>\<close>

subsection \<open>String methods\<close>

text \<open>
  A string is a list of characters with code points below 256. \<open>str.strip()\<close>
  removes the characters for which \<open>str.isspace\<close> holds (codes 9 to 13, 28 to 32,
  0x85 and 0xA0), \<open>str.lower()\<close> maps \<open>A\<close>..\<open>Z\<close> to \<open>a\<close>..\<open>z\<close> and the
  capital letters 0xC0 to 0xDE, except the sign 0xD7, to the letters 0xE0 to 0xFE, and
  \<open>replace(" ", "_")\<close> rewrites every blank.
\<close>

definition is_space :: "char \<Rightarrow> bool" where
  "is_space c = (c \<in> set [CHR 0x09, CHR 0x0A, CHR 0x0B, CHR 0x0C, CHR 0x0D,
                           CHR 0x1C, CHR 0x1D, CHR 0x1E, CHR 0x1F, CHR 0x20,
                           CHR 0x85, CHR 0xA0])"

definition strip :: "string \<Rightarrow> string" where
  "strip s = rev (dropWhile is_space (rev (dropWhile is_space s)))"

definition upper_letters :: string where
  "upper_letters = ''ABCDEFGHIJKLMNOPQRSTUVWXYZ'' @
     [CHR 0xC0, CHR 0xC1, CHR 0xC2, CHR 0xC3, CHR 0xC4, CHR 0xC5, CHR 0xC6, CHR 0xC7,
      CHR 0xC8, CHR 0xC9, CHR 0xCA, CHR 0xCB, CHR 0xCC, CHR 0xCD, CHR 0xCE, CHR 0xCF,
      CHR 0xD0, CHR 0xD1, CHR 0xD2, CHR 0xD3, CHR 0xD4, CHR 0xD5, CHR 0xD6, CHR 0xD8,
      CHR 0xD9, CHR 0xDA, CHR 0xDB, CHR 0xDC, CHR 0xDD, CHR 0xDE]"

definition lower_letters :: string where
  "lower_letters = ''abcdefghijklmnopqrstuvwxyz'' @
     [CHR 0xE0, CHR 0xE1, CHR 0xE2, CHR 0xE3, CHR 0xE4, CHR 0xE5, CHR 0xE6, CHR 0xE7,
      CHR 0xE8, CHR 0xE9, CHR 0xEA, CHR 0xEB, CHR 0xEC, CHR 0xED, CHR 0xEE, CHR 0xEF,
      CHR 0xF0, CHR 0xF1, CHR 0xF2, CHR 0xF3, CHR 0xF4, CHR 0xF5, CHR 0xF6, CHR 0xF8,
      CHR 0xF9, CHR 0xFA, CHR 0xFB, CHR 0xFC, CHR 0xFD, CHR 0xFE]"

definition lower_char :: "char \<Rightarrow> char" where
  "lower_char c = (case map_of (zip upper_letters lower_letters) c of None \<Rightarrow> c | Some l \<Rightarrow> l)"

definition lower :: "string \<Rightarrow> string" where
  "lower s = map lower_char s"

definition replace_blank :: "string \<Rightarrow> string" where
  "replace_blank s = map (\<lambda>c. if c = CHR '' '' then CHR ''_'' else c) s"

text \<open>Line 93: \<open>col.strip().lower().replace(" ", "_")\<close>.\<close>

definition normalise_col :: "string \<Rightarrow> string" where
  "normalise_col col = replace_blank (lower (strip col))"

text \<open>\<open>str(n)\<close> for a natural number.\<close>

fun str_of_nat :: "nat \<Rightarrow> string" where
  "str_of_nat n =
     (if n < 10 then [''0123456789'' ! n] else str_of_nat (n div 10) @ [''0123456789'' ! (n mod 10)])"

declare str_of_nat.simps [simp del]

text \<open>
  \<open>repr\<close> of a string, as the f-string of line 98 prints each element of the list:
  single quotes unless the text holds a single quote and no double quote; backslash,
  the chosen quote, tab, newline and carriage return escaped; the other characters that
  are not printable (codes below 32, 0x7F to 0xA0 and 0xAD) as \<open>\xNN\<close>.
\<close>

definition hex_digit :: "nat \<Rightarrow> char" where
  "hex_digit d = ''0123456789abcdef'' ! d"

definition repr_char :: "char \<Rightarrow> char \<Rightarrow> string" where
  "repr_char q c =
     (if c = q \<or> c = CHR 0x5C then [CHR 0x5C, c]
      else if c = CHR 0x09 then [CHR 0x5C, CHR ''t'']
      else if c = CHR 0x0A then [CHR 0x5C, CHR ''n'']
      else if c = CHR 0x0D then [CHR 0x5C, CHR ''r'']
      else if (of_char c :: nat) < 32 \<or> (127 \<le> (of_char c :: nat) \<and> (of_char c :: nat) \<le> 160)
              \<or> c = CHR 0xAD
      then [CHR 0x5C, CHR ''x'', hex_digit ((of_char c :: nat) div 16), hex_digit ((of_char c :: nat) mod 16)]
      else [c])"

definition repr_str :: "string \<Rightarrow> string" where
  "repr_str s =
     (let q = (if CHR 0x27 \<in> set s \<and> CHR 0x22 \<notin> set s then CHR 0x22 else CHR 0x27)
      in [q] @ concat (map (repr_char q) s) @ [q])"

fun join :: "string \<Rightarrow> string list \<Rightarrow> string" where
  "join sep [] = []"
| "join sep [x] = x"
| "join sep (x # y # ys) = x @ sep @ join sep (y # ys)"

definition repr_list :: "string list \<Rightarrow> string" where
  "repr_list xs = ''['' @ join '', '' (map repr_str xs) @ '']''"

subsection \<open>Floating point\<close>

text \<open>
  A Python float is an IEEE 754 binary64 number, hence a rational. Each arithmetic
  operation returns the exact result rounded to the nearest number with a 53 bit
  significand, ties to even. \<open>float_exponent x\<close> is the binary exponent of a positive
  \<open>x\<close> (the floor of its base 2 logarithm) and \<open>ulp e\<close> the spacing of the floats in
  that binade. Overflow and subnormal numbers are outside the range of the values
  computed here (quotients of row counts and percentages).
\<close>

definition round_half_even :: "rat \<Rightarrow> int" where
  "round_half_even x =
     (let f = \<lfloor>x\<rfloor>; r = x - of_int f
      in if r < 1 / 2 then f else if 1 / 2 < r then f + 1 else if even f then f else f + 1)"

definition float_exponent :: "rat \<Rightarrow> int" where
  "float_exponent x = (if 1 \<le> x then bitlen \<lfloor>x\<rfloor> - 1 else - bitlen (\<lceil>1 / x\<rceil> - 1))"

definition ulp :: "int \<Rightarrow> rat" where
  "ulp e = (if 52 \<le> e then 2 ^ nat (e - 52) else 1 / 2 ^ nat (52 - e))"

definition float_round :: "rat \<Rightarrow> rat" where
  "float_round x =
     (let u = ulp (float_exponent \<bar>x\<bar>) in sgn x * of_int (round_half_even (\<bar>x\<bar> / u)) * u)"

text \<open>
  \<open>a / b\<close> on Python ints is true division: it raises \<open>ZeroDivisionError\<close> for a zero
  divisor and otherwise returns the correctly rounded quotient.
\<close>

definition int_truediv :: "int \<Rightarrow> int \<Rightarrow> string + rat" where
  "int_truediv a b = (if b = 0 then Inl ''division by zero'' else Inr (float_round (of_int a / of_int b)))"

definition float_mul :: "rat \<Rightarrow> rat \<Rightarrow> rat" where
  "float_mul x y = float_round (x * y)"

text \<open>
  \<open>round(x, 2)\<close> on a float: the exact value of \<open>x\<close> is rounded to two decimals, ties
  to even, and the decimal is converted back to the nearest float.
\<close>

definition py_round2 :: "rat \<Rightarrow> rat" where
  "py_round2 x = float_round (of_int (round_half_even (x * 100)) / 100)"

section \<open>Data frames\<close>

text \<open>
  A cell of a pandas frame is null (\<open>NaN\<close>, also standing for \<open>NaT\<close>), a number, a
  text or a timestamp (nanoseconds since the epoch). A frame is its column labels and
  its rows; every row of a frame that pandas builds has one cell for each label.
\<close>

type_synonym timestamp = int

datatype cell = NaN | Num rat | Str string | Ts timestamp

record frame =
  columns :: "string list"
  rows :: "cell list list"

definition rectangular :: "frame \<Rightarrow> bool" where
  "rectangular df = list_all (\<lambda>r. length r = length (columns df)) (rows df)"

definition isnull :: "cell \<Rightarrow> bool" where
  "isnull c = (c = NaN)"

primrec index_of :: "'a \<Rightarrow> 'a list \<Rightarrow> nat" where
  "index_of x [] = 0"
| "index_of x (y # ys) = (if x = y then 0 else Suc (index_of x ys))"

text \<open>The positions, counted from \<open>i\<close>, of the labels equal to \<open>k\<close>.\<close>

primrec positions_from :: "nat \<Rightarrow> string list \<Rightarrow> string \<Rightarrow> nat list" where
  "positions_from i [] k = []"
| "positions_from i (n # ns) k =
     (if n = k then i # positions_from (Suc i) ns k else positions_from (Suc i) ns k)"

definition positions :: "string list \<Rightarrow> string \<Rightarrow> nat list" where
  "positions names k = positions_from 0 names k"

text \<open>
  \<open>df[keys]\<close> with a list of labels: the columns in the order of the keys, every
  column that carries a key's label (a label held by two columns selects both);
  \<open>KeyError\<close> when a key labels no column.
\<close>

definition getitem_list :: "string list \<Rightarrow> frame \<Rightarrow> string + frame" where
  "getitem_list keys df =
     (if list_all (\<lambda>k. k \<in> set (columns df)) keys
      then (let idx = concat (map (positions (columns df)) keys)
            in Inr \<lparr>columns = map ((!) (columns df)) idx,
                    rows = map (\<lambda>r. map ((!) r) idx) (rows df)\<rparr>)
      else Inl (repr_list (filter (\<lambda>k. k \<notin> set (columns df)) keys) @ '' not in index''))"

text \<open>\<open>df.columns = names\<close>: \<open>ValueError\<close> unless there is one name for each column.\<close>

definition set_columns :: "string list \<Rightarrow> frame \<Rightarrow> string + frame" where
  "set_columns names df =
     (if length names = length (columns df) then Inr (df\<lparr>columns := names\<rparr>)
      else Inl (''Length mismatch: Expected axis has '' @ str_of_nat (length (columns df))
                @ '' elements, new values have '' @ str_of_nat (length names) @ '' elements''))"

text \<open>\<open>df[c]\<close>: the column labelled \<open>c\<close>, \<open>KeyError\<close> when there is none.\<close>

definition getitem :: "string \<Rightarrow> frame \<Rightarrow> string + cell list" where
  "getitem c df =
     (if c \<in> set (columns df) then Inr (map (\<lambda>r. r ! index_of c (columns df)) (rows df))
      else Inl (repr_str c))"

text \<open>
  \<open>df[c] = values\<close>: replaces the column labelled \<open>c\<close> or appends a new last column;
  \<open>ValueError\<close> when the number of values is not the number of rows.
\<close>

definition setitem :: "string \<Rightarrow> cell list \<Rightarrow> frame \<Rightarrow> string + frame" where
  "setitem c vs df =
     (if length vs \<noteq> length (rows df)
      then Inl (''Length of values ('' @ str_of_nat (length vs)
                @ '') does not match length of index ('' @ str_of_nat (length (rows df)) @ '')'')
      else if c \<in> set (columns df)
      then Inr (df\<lparr>rows := map2 (\<lambda>r v. r[index_of c (columns df) := v]) (rows df) vs\<rparr>)
      else Inr \<lparr>columns = columns df @ [c], rows = map2 (\<lambda>r v. r @ [v]) (rows df) vs\<rparr>)"

text \<open>\<open>df.dropna()\<close> keeps the rows without a null, in their order.\<close>

definition dropna :: "frame \<Rightarrow> frame" where
  "dropna df = df\<lparr>rows := filter (\<lambda>r. \<not> list_ex isnull r) (rows df)\<rparr>"

text \<open>\<open>df.dropna(subset=[c])\<close> keeps the rows whose cell in column \<open>c\<close> is not null.\<close>

definition dropna_subset :: "string \<Rightarrow> frame \<Rightarrow> string + frame" where
  "dropna_subset c df =
     (if c \<in> set (columns df)
      then Inr (df\<lparr>rows := filter (\<lambda>r. \<not> isnull (r ! index_of c (columns df))) (rows df)\<rparr>)
      else Inl (repr_list [c]))"

text \<open>\<open>df[mask]\<close> with a boolean column: the rows whose mask entry is true.\<close>

definition getitem_mask :: "bool list \<Rightarrow> frame \<Rightarrow> frame" where
  "getitem_mask keep df = df\<lparr>rows := map fst (filter snd (zip (rows df) keep))\<rparr>"

definition head :: "frame \<Rightarrow> frame" where
  "head df = df\<lparr>rows := take 5 (rows df)\<rparr>"

subsection \<open>Category codes\<close>

text \<open>
  \<open>astype('category')\<close> takes as categories the distinct non-null values of the
  column in sorted order (numbers by value, texts by code point, numbers before texts),
  and \<open>cat.codes\<close> gives each cell the position of its value among the categories,
  \<open>-1\<close> for a null.
\<close>

fun cell_key :: "cell \<Rightarrow> nat \<times> rat \<times> string" where
  "cell_key (Num q) = (0, q, [])"
| "cell_key (Str s) = (1, 0, s)"
| "cell_key (Ts t) = (2, of_int t, [])"
| "cell_key NaN = (3, 0, [])"

definition categories :: "cell list \<Rightarrow> cell list" where
  "categories xs = sort_key cell_key (remdups (filter (\<lambda>x. \<not> isnull x) xs))"

definition cat_codes :: "cell list \<Rightarrow> int list" where
  "cat_codes xs = map (\<lambda>x. if isnull x then - 1 else int (index_of x (categories xs))) xs"

section \<open>The application \<open>app.py\<close>\<close>

subsection \<open>Libraries and server state\<close>

text \<open>
  The libraries the upload handler calls are functions of their arguments; they are the
  fields of an environment, so that every theorem holds for whatever they compute.
  A field of type \<open>string + 'a\<close> raises the exception whose text is under \<open>Inl\<close>;
  \<open>save\<close> (the \<open>file.save\<close> of the upload), \<open>savefig\<close> and \<open>to_csv\<close> write a file
  and return \<open>Some\<close> text when they raise.
  \<open>to_datetime\<close> is \<open>pd.to_datetime(column, errors='coerce')\<close> at one cell of the
  column (\<open>None\<close> is \<open>NaT\<close>). \<open>isolation_forest\<close> is \<open>fit\<close> followed by \<open>predict\<close>
  on the same matrix, for a number of trees, a contamination and the state of the random
  generator the estimator draws from.
\<close>

datatype figure = Histplot "cell list" nat | Barplot "cell list" nat

type_synonym rng = nat

record env =
  save :: "string \<Rightarrow> string \<Rightarrow> string option"
  read_csv :: "string \<Rightarrow> string + frame"
  to_datetime :: "cell list \<Rightarrow> cell \<Rightarrow> timestamp option"
  dt_month :: "timestamp \<Rightarrow> int"
  dt_dayofweek :: "timestamp \<Rightarrow> int"
  to_html :: "string \<Rightarrow> frame \<Rightarrow> string"
  isnull_sum_text :: "frame \<Rightarrow> string"
  value_counts_head_text :: "cell list \<Rightarrow> string"
  describe_text :: "cell list \<Rightarrow> string"
  value_counts_sort_index_text :: "cell list \<Rightarrow> string"
  savefig :: "string \<Rightarrow> figure \<Rightarrow> string option"
  fit_transform :: "frame \<Rightarrow> string + rat list list"
  isolation_forest :: "nat \<Rightarrow> rat \<Rightarrow> rng \<Rightarrow> rat list list \<Rightarrow> string + int list"
  seeded_rng :: "nat \<Rightarrow> rng"
  global_rng :: "rng"
  to_csv :: "string \<Rightarrow> frame \<Rightarrow> string option"

datatype pyval = PyInt int | PyFloat rat | PyStr string

datatype response =
  Response string nat
| Redirect string
| Template string "(string \<times> pyval) list"
| InternalServerError string

text \<open>
  \<open>InternalServerError e\<close> is the answer of Flask, with status 500, to a request whose
  handler lets the exception \<open>e\<close> escape.
\<close>

record request =
  filename :: string
  content :: string

text \<open>
  The state of the server: the global dictionary \<open>results_data\<close> (insertion ordered,
  \<open>{}\<close> at startup), the uploads that line 88 saved, by path, and the files of the
  result and static folders, by name.
\<close>

record server =
  results_data :: "(string \<times> pyval) list"
  upload_folder :: "string \<rightharpoonup> string"
  result_folder :: "string \<rightharpoonup> frame"
  static_folder :: "string \<rightharpoonup> figure"

definition startup :: server where
  "startup = \<lparr>results_data = [], upload_folder = Map.empty, result_folder = Map.empty,
              static_folder = Map.empty\<rparr>"

fun dict_set :: "string \<Rightarrow> pyval \<Rightarrow> (string \<times> pyval) list \<Rightarrow> (string \<times> pyval) list" where
  "dict_set k v [] = [(k, v)]"
| "dict_set k v ((k', v') # d) = (if k' = k then (k, v) # d else (k', v') # dict_set k v d)"

fun dict_update :: "(string \<times> pyval) list \<Rightarrow> (string \<times> pyval) list \<Rightarrow> (string \<times> pyval) list" where
  "dict_update d [] = d"
| "dict_update d ((k, v) # kvs) = dict_update (dict_set k v d) kvs"

subsection \<open>Exceptions and early returns\<close>

text \<open>
  A step of the \<open>try\<close> block raises, returns a response from the handler, or goes on.
\<close>

datatype 'a step = Raised string | Returned response | Next 'a

definition bind_exn :: "string + 'a \<Rightarrow> ('a \<Rightarrow> string + 'b) \<Rightarrow> string + 'b" where
  "bind_exn m f = (case m of Inl e \<Rightarrow> Inl e | Inr x \<Rightarrow> f x)"

definition newline :: string where
  "newline = [CHR 0x0A]"

definition shape_str :: "frame \<Rightarrow> string" where
  "shape_str df = ''('' @ str_of_nat (length (rows df)) @ '', '' @ str_of_nat (length (columns df)) @ '')''"

subsection \<open>Step 1: load data (lines 92 to 104)\<close>

definition expected_cols :: "string list" where
  "expected_cols = [''transaction_date'', ''agency_name'', ''vendor'', ''amount'']"

definition canonical_cols :: "string list" where
  "canonical_cols = [''TRANSACTION_DATE'', ''AGENCY_NAME'', ''MERCHANT_NAME'', ''TRANSACTION_AMOUNT'']"

definition stage_load :: "env \<Rightarrow> string \<Rightarrow> (frame \<times> string) step" where
  "stage_load env bytes =
     (case read_csv env bytes of
        Inl e \<Rightarrow> Raised e
      | Inr df \<Rightarrow>
          (let actual_cols = map normalise_col (columns df);
               df = df\<lparr>columns := actual_cols\<rparr>
           in if \<not> list_all (\<lambda>col. col \<in> set actual_cols) expected_cols
              then Returned (Response (''Required columns missing. Found: '' @ repr_list actual_cols) 400)
              else (case bind_exn (getitem_list expected_cols df) (set_columns canonical_cols) of
                      Inl e \<Rightarrow> Raised e
                    | Inr df \<Rightarrow> Next (df, to_html env ''table table-bordered'' (head df)))))"

subsection \<open>Step 2: preprocessing (lines 107 to 115)\<close>

definition coerce_cell :: "env \<Rightarrow> cell list \<Rightarrow> cell \<Rightarrow> cell" where
  "coerce_cell env col c = (case to_datetime env col c of None \<Rightarrow> NaN | Some t \<Rightarrow> Ts t)"

definition coerce_dates :: "env \<Rightarrow> cell list \<Rightarrow> cell list" where
  "coerce_dates env col = map (coerce_cell env col) col"

definition stage_clean :: "env \<Rightarrow> frame \<Rightarrow> string + frame \<times> string list" where
  "stage_clean env df0 =
     (let info1 = ''Initial Shape: '' @ shape_str df0;
          info2 = ''Missing Values:'' @ newline @ isnull_sum_text env df0;
          df = dropna df0
      in bind_exn (getitem ''TRANSACTION_DATE'' df) (\<lambda>dates.
         bind_exn (setitem ''TRANSACTION_DATE'' (coerce_dates env dates) df) (\<lambda>df.
         bind_exn (dropna_subset ''TRANSACTION_DATE'' df) (\<lambda>df.
         Inr (df, [info1, info2, ''After Cleaning Shape: '' @ shape_str df])))))"

subsection \<open>Feature engineering (lines 118 to 121)\<close>

definition dt_field :: "(timestamp \<Rightarrow> int) \<Rightarrow> cell \<Rightarrow> cell" where
  "dt_field f c = (case c of Ts t \<Rightarrow> Num (of_int (f t)) | _ \<Rightarrow> NaN)"

definition code_cells :: "cell list \<Rightarrow> cell list" where
  "code_cells col = map (\<lambda>k. Num (of_int k)) (cat_codes col)"

definition stage_features :: "env \<Rightarrow> frame \<Rightarrow> string + frame" where
  "stage_features env df =
     bind_exn (getitem ''TRANSACTION_DATE'' df) (\<lambda>dates.
     bind_exn (setitem ''Month'' (map (dt_field (dt_month env)) dates) df) (\<lambda>df.
     bind_exn (getitem ''TRANSACTION_DATE'' df) (\<lambda>dates.
     bind_exn (setitem ''DayOfWeek'' (map (dt_field (dt_dayofweek env)) dates) df) (\<lambda>df.
     bind_exn (getitem ''AGENCY_NAME'' df) (\<lambda>agencies.
     bind_exn (setitem ''AGENCY_CODE'' (code_cells agencies) df) (\<lambda>df.
     bind_exn (getitem ''MERCHANT_NAME'' df) (\<lambda>merchants.
     setitem ''MERCHANT_CODE'' (code_cells merchants) df)))))))"

subsection \<open>Step 3: exploratory summary and histogram (lines 124 to 138)\<close>

definition stage_eda :: "env \<Rightarrow> frame \<Rightarrow> string + string list \<times> figure" where
  "stage_eda env df =
     bind_exn (getitem ''AGENCY_NAME'' df) (\<lambda>agencies.
     bind_exn (getitem ''MERCHANT_NAME'' df) (\<lambda>merchants.
     bind_exn (getitem ''TRANSACTION_AMOUNT'' df) (\<lambda>amounts.
     bind_exn (getitem ''Month'' df) (\<lambda>months.
     Inr ([''Top 5 Agencies:'' @ newline @ value_counts_head_text env agencies,
           ''Top 5 Merchants:'' @ newline @ value_counts_head_text env merchants,
           ''Transaction Amount Stats:'' @ newline @ describe_text env amounts,
           ''Transactions per Month:'' @ newline @ value_counts_sort_index_text env months],
          Histplot amounts 100)))))"

subsection \<open>Step 4: model (lines 141 to 147)\<close>

record isolation_forest_params =
  n_estimators :: nat
  contamination :: rat
  random_state :: "nat option"

text \<open>
  scikit-learn's \<open>check_random_state\<close>: an estimator built with \<open>random_state=None\<close>
  draws from the global generator, one built with an integer from a new generator
  seeded with it.
\<close>

definition check_random_state :: "env \<Rightarrow> nat option \<Rightarrow> rng" where
  "check_random_state env seed = (case seed of None \<Rightarrow> global_rng env | Some s \<Rightarrow> seeded_rng env s)"

definition fit_predict :: "env \<Rightarrow> isolation_forest_params \<Rightarrow> rat list list \<Rightarrow> string + int list" where
  "fit_predict env m X =
     isolation_forest env (n_estimators m) (contamination m)
       (check_random_state env (random_state m)) X"

definition model :: isolation_forest_params where
  "model = \<lparr>n_estimators = 100, contamination = float_round (2 / 100), random_state = Some 42\<rparr>"

definition feature_cols :: "string list" where
  "feature_cols = [''TRANSACTION_AMOUNT'', ''AGENCY_CODE'', ''MERCHANT_CODE'', ''Month'', ''DayOfWeek'']"

definition stage_model :: "env \<Rightarrow> frame \<Rightarrow> string + frame" where
  "stage_model env df =
     bind_exn (getitem_list feature_cols df) (\<lambda>features.
     bind_exn (fit_transform env features) (\<lambda>features_scaled.
     bind_exn (fit_predict env model features_scaled) (\<lambda>labels.
     setitem ''Anomaly'' (map (\<lambda>l. Num (of_int l)) labels) df)))"

subsection \<open>Summary counts and step 5 (lines 149 to 185)\<close>

definition is_anomaly :: "cell \<Rightarrow> bool" where
  "is_anomaly v = (v = Num (- 1))"

definition fraud_percentage :: "int \<Rightarrow> int \<Rightarrow> string + rat" where
  "fraud_percentage fraud_count total_transactions =
     bind_exn (int_truediv fraud_count total_transactions) (\<lambda>q. Inr (py_round2 (float_mul q 100)))"

definition result_set ::
  "string \<Rightarrow> string list \<Rightarrow> string list \<Rightarrow> string \<Rightarrow> int \<Rightarrow> int \<Rightarrow> rat \<Rightarrow> (string \<times> pyval) list" where
  "result_set raw_preview_html preprocessing_info eda_lines fraud_table_html fraud_count
     total_transactions pct =
     [(''raw_preview'', PyStr raw_preview_html),
      (''preprocessing_summary'', PyStr (join (newline @ newline) preprocessing_info)),
      (''eda_summary'', PyStr (join (newline @ newline) eda_lines)),
      (''fraud_table'', PyStr fraud_table_html),
      (''eda_plot'', PyStr ''eda_plot.png''),
      (''fraud_plot'', PyStr ''fraud_agencies.png''),
      (''fraud_count'', PyInt fraud_count),
      (''total_transactions'', PyInt total_transactions),
      (''fraud_percentage'', PyFloat pct)]"

text \<open>
  The body of the \<open>try\<close> block. The state it returns holds the files written up to the
  point where the block was left.
\<close>

definition upload_try :: "env \<Rightarrow> string \<Rightarrow> server \<Rightarrow> response step \<times> server" where
  "upload_try env bytes st =
     (case stage_load env bytes of
        Raised e \<Rightarrow> (Raised e, st)
      | Returned r \<Rightarrow> (Returned r, st)
      | Next (df, raw_preview_html) \<Rightarrow>
     (case bind_exn (stage_clean env df) (\<lambda>(df, preprocessing_info).
           bind_exn (stage_features env df) (\<lambda>df.
           bind_exn (stage_eda env df) (\<lambda>(eda_lines, fig). Inr (df, preprocessing_info, eda_lines, fig)))) of
        Inl e \<Rightarrow> (Raised e, st)
      | Inr (df, preprocessing_info, eda_lines, fig) \<Rightarrow>
     (case savefig env ''static/eda_plot.png'' fig of
        Some e \<Rightarrow> (Raised e, st)
      | None \<Rightarrow>
     (let st = st\<lparr>static_folder := (static_folder st)(''eda_plot.png'' \<mapsto> fig)\<rparr>
      in case bind_exn (stage_model env df) (\<lambda>df.
              bind_exn (getitem ''Anomaly'' df) (\<lambda>flags.
              let anomalies = getitem_mask (map is_anomaly flags) df;
                  total_transactions = int (length (rows df));
                  fraud_count = int (length (rows anomalies))
              in bind_exn (fraud_percentage fraud_count total_transactions) (\<lambda>pct.
                 bind_exn (getitem ''AGENCY_NAME'' anomalies) (\<lambda>agencies.
                 Inr (anomalies, total_transactions, fraud_count, pct, Barplot agencies 8))))) of
        Inl e \<Rightarrow> (Raised e, st)
      | Inr (anomalies, total_transactions, fraud_count, pct, fig) \<Rightarrow>
     (case savefig env ''static/fraud_agencies.png'' fig of
        Some e \<Rightarrow> (Raised e, st)
      | None \<Rightarrow>
     (let st = st\<lparr>static_folder := (static_folder st)(''fraud_agencies.png'' \<mapsto> fig)\<rparr>
      in case to_csv env ''result/fraud_report.csv'' anomalies of
        Some e \<Rightarrow> (Raised e, st)
      | None \<Rightarrow>
          (Returned (Redirect ''/results''),
           st\<lparr>result_folder := (result_folder st)(''fraud_report.csv'' \<mapsto> anomalies),
              results_data := dict_update (results_data st)
                (result_set raw_preview_html preprocessing_info eda_lines
                   (to_html env ''table table-striped'' anomalies)
                   fraud_count total_transactions pct)\<rparr>)))))))"

text \<open>
  \<open>os.path.join(a, b)\<close>: an absolute \<open>b\<close> replaces \<open>a\<close>, otherwise the two are
  joined by one separator.
\<close>

definition path_join :: "string \<Rightarrow> string \<Rightarrow> string" where
  "path_join a b =
     (if take 1 b = ''/'' then b
      else if a = [] \<or> drop (length a - 1) a = ''/'' then a @ b
      else a @ ''/'' @ b)"

text \<open>
  The handler of \<open>/upload\<close> (lines 82 to 188): an empty upload is refused and the file
  is saved under the upload folder. The save of line 88 is outside the \<open>try\<close> block:
  when it raises, the exception leaves the handler and no stage runs. An exception of
  the \<open>try\<close> block becomes the response of line 188, which Flask sends with status 200
  since no status is given.
\<close>

definition upload :: "env \<Rightarrow> request \<Rightarrow> server \<Rightarrow> response \<times> server" where
  "upload env req st =
     (if filename req = [] then (Response ''No file selected'' 400, st)
      else (let filepath = path_join ''upload'' (filename req)
            in case save env filepath (content req) of
                 Some e \<Rightarrow> (InternalServerError e, st)
               | None \<Rightarrow>
                   (let st = st\<lparr>upload_folder := (upload_folder st)(filepath \<mapsto> content req)\<rparr>
                    in case upload_try env (content req) st of
                         (Raised e, st) \<Rightarrow> (Response (''Error while processing file: '' @ e) 200, st)
                       | (Returned r, st) \<Rightarrow> (r, st)
                       | (Next r, st) \<Rightarrow> (r, st))))"

subsection \<open>The pages that show the results (lines 68 to 78 and 190 to 205)\<close>

definition lookup_all :: "(string \<times> pyval) list \<Rightarrow> (string \<times> string) list \<Rightarrow> (string \<times> pyval) list option" where
  "lookup_all d ps =
     (if list_all (\<lambda>(p, k). map_of d k \<noteq> None) ps
      then Some (map (\<lambda>(p, k). (p, the (map_of d k))) ps) else None)"

definition render_template :: "string \<Rightarrow> (string \<times> pyval) list option \<Rightarrow> response" where
  "render_template name args =
     (case args of None \<Rightarrow> Response ''KeyError'' 500 | Some kvs \<Rightarrow> Template name kvs)"

definition dashboard :: "server \<Rightarrow> response" where
  "dashboard st =
     (if results_data st = []
      then Template ''dashboard.html'' [(''message'', PyStr ''No dataset uploaded yet.'')]
      else render_template ''dashboard.html''
             (map_option (\<lambda>kvs. kvs @ [(''fraud_plot'', PyStr ''fraud_agencies.png'')])
                (lookup_all (results_data st)
                   [(''fraud_count'', ''fraud_count''), (''total_transactions'', ''total_transactions''),
                    (''fraud_percentage'', ''fraud_percentage'')])))"

definition results :: "server \<Rightarrow> response" where
  "results st =
     (if results_data st = []
      then Response ''No results available. Please upload a dataset first.'' 400
      else render_template ''results.html''
             (lookup_all (results_data st)
                [(''raw_preview'', ''raw_preview''), (''preprocessing_summary'', ''preprocessing_summary''),
                 (''eda_summary'', ''eda_summary''), (''eda_plot'', ''eda_plot''),
                 (''fraud_plot'', ''fraud_plot''), (''fraud_count'', ''fraud_count''),
                 (''total_transactions'', ''total_transactions''),
                 (''fraud_percentage'', ''fraud_percentage''), (''table'', ''fraud_table'')]))"

definition download :: "server \<Rightarrow> frame option" where
  "download st = result_folder st ''fraud_report.csv''"

section \<open>Auxiliary notions for the proofs\<close>

text \<open>
  The column that \<open>df[c]\<close> returns when the label is present, the frame that
  \<open>df[c] = values\<close> builds for a new label, and the frame the feature engineering
  lines reach on a four column table.
\<close>

definition column :: "string \<Rightarrow> frame \<Rightarrow> cell list" where
  "column c df = map (\<lambda>r. r ! index_of c (columns df)) (rows df)"

definition add_column :: "string \<Rightarrow> cell list \<Rightarrow> frame \<Rightarrow> frame" where
  "add_column c vs df = \<lparr>columns = columns df @ [c], rows = map2 (\<lambda>r v. r @ [v]) (rows df) vs\<rparr>"

definition features :: "env \<Rightarrow> frame \<Rightarrow> frame" where
  "features env df =
     add_column ''MERCHANT_CODE'' (code_cells (column ''MERCHANT_NAME'' df))
       (add_column ''AGENCY_CODE'' (code_cells (column ''AGENCY_NAME'' df))
         (add_column ''DayOfWeek'' (map (dt_field (dt_dayofweek env)) (column ''TRANSACTION_DATE'' df))
           (add_column ''Month'' (map (dt_field (dt_month env)) (column ''TRANSACTION_DATE'' df)) df)))"

text \<open>
  The cleaning of lines 111 to 113 in the words of the specification: the date column
  that the permissive parser sees is the one left by the first \<open>dropna\<close>; a row is
  dropped when it holds a null or when its date does not parse; a row that stays has
  its date replaced by the parsed timestamp.
\<close>

definition date_context :: "frame \<Rightarrow> cell list" where
  "date_context df = map (\<lambda>r. r ! 0) (filter (\<lambda>r. \<not> list_ex isnull r) (rows df))"

definition spec_dropped :: "env \<Rightarrow> frame \<Rightarrow> cell list \<Rightarrow> bool" where
  "spec_dropped env df r = (list_ex isnull r \<or> to_datetime env (date_context df) (r ! 0) = None)"

definition with_parsed_date :: "env \<Rightarrow> frame \<Rightarrow> cell list \<Rightarrow> cell list" where
  "with_parsed_date env df r = r[0 := coerce_cell env (date_context df) (r ! 0)]"

definition cleaned :: "env \<Rightarrow> frame \<Rightarrow> frame" where
  "cleaned env df =
     \<lparr>columns = columns df,
      rows = map (with_parsed_date env df) (filter (\<lambda>r. \<not> spec_dropped env df r) (rows df))\<rparr>"

definition scored :: "int list \<Rightarrow> frame \<Rightarrow> frame" where
  "scored labels df = add_column ''Anomaly'' (map (\<lambda>l. Num (of_int l)) labels) df"

definition flagged :: "int list \<Rightarrow> frame \<Rightarrow> frame" where
  "flagged labels df = getitem_mask (map (\<lambda>l. l = - 1) labels) (scored labels df)"

definition report_cols :: "string list" where
  "report_cols = [''TRANSACTION_DATE'', ''AGENCY_NAME'', ''MERCHANT_NAME'', ''TRANSACTION_AMOUNT'',
                  ''Month'', ''DayOfWeek'', ''AGENCY_CODE'', ''MERCHANT_CODE'', ''Anomaly'']"

section \<open>Sequences of uploads\<close>

text \<open>
  The server handles one request after the other. \<open>run_uploads\<close> is the state after a
  list of uploads, \<open>all_failed\<close> says that none of them reached the redirect of line 185.
\<close>

fun run_uploads :: "(env \<times> request) list \<Rightarrow> server \<Rightarrow> server" where
  "run_uploads [] st = st"
| "run_uploads ((env, req) # us) st = run_uploads us (snd (upload env req st))"

fun all_failed :: "(env \<times> request) list \<Rightarrow> server \<Rightarrow> bool" where
  "all_failed [] st = True"
| "all_failed ((env, req) # us) st =
     (fst (upload env req st) \<noteq> Redirect ''/results'' \<and> all_failed us (snd (upload env req st)))"

section \<open>The result set and the states of the server\<close>

text \<open>
  The nine keys of the dictionary of lines 173 to 183, in their order, and what is
  expected of a result set: exactly these keys, integer counters with
  \<open>0 \<le> fraud_count \<le> total_transactions\<close> and a percentage between 0 and 100.
\<close>

definition result_keys :: "string list" where
  "result_keys = [''raw_preview'', ''preprocessing_summary'', ''eda_summary'', ''fraud_table'',
                  ''eda_plot'', ''fraud_plot'', ''fraud_count'', ''total_transactions'',
                  ''fraud_percentage'']"

definition result_set_ok :: "(string \<times> pyval) list \<Rightarrow> bool" where
  "result_set_ok d =
     (map fst d = result_keys \<and>
      (case map_of d ''fraud_count'' of
         Some (PyInt fc) \<Rightarrow>
           (case map_of d ''total_transactions'' of
              Some (PyInt tt) \<Rightarrow>
                (case map_of d ''fraud_percentage'' of
                   Some (PyFloat p) \<Rightarrow> 0 \<le> fc \<and> fc \<le> tt \<and> 0 \<le> p \<and> p \<le> 100
                 | _ \<Rightarrow> False)
            | _ \<Rightarrow> False)
       | _ \<Rightarrow> False))"

text \<open>
  The states that the server reaches from startup by uploads, successful or not; the
  flag says whether one of the uploads so far reached the redirect.
\<close>

inductive reachable :: "bool \<Rightarrow> server \<Rightarrow> bool" where
  reachable_startup: "reachable False startup"
| reachable_upload:
    "reachable b st \<Longrightarrow>
     reachable (b \<or> fst (upload env req st) = Redirect ''/results'') (snd (upload env req st))"

section \<open>Concrete inputs\<close>

text \<open>
  A small upload: five columns, four rows, of which one has a date that does not parse
  and one has no agency; the forest flags the second of the two remaining rows.
\<close>

definition demo_frame :: frame where
  "demo_frame =
     \<lparr>columns = [''Transaction Date'', ''Agency Name'', ''Vendor'', ''Amount'', ''Note''],
      rows = [[Str ''2020-01-01'', Str ''B'', Str ''v1'', Num 10, NaN],
              [Str ''not-a-date'', Str ''A'', Str ''v1'', Num 10, Str ''x''],
              [Str ''2020-01-02'', Str ''A'', Str ''v2'', Num 99, Str ''x''],
              [Str ''2020-01-03'', NaN, Str ''v2'', Num 99, Str ''x'']]\<rparr>"

definition demo_env :: env where
  "demo_env =
     \<lparr>save = (\<lambda>p b. None),
      read_csv = (\<lambda>b. Inr demo_frame),
      to_datetime = (\<lambda>col c. if c = Str ''not-a-date'' then None else Some 1577836800000000000),
      dt_month = (\<lambda>t. 1), dt_dayofweek = (\<lambda>t. 2),
      to_html = (\<lambda>c f. ''<table>''), isnull_sum_text = (\<lambda>f. ''nulls''),
      value_counts_head_text = (\<lambda>c. ''counts''), describe_text = (\<lambda>c. ''stats''),
      value_counts_sort_index_text = (\<lambda>c. ''months''),
      savefig = (\<lambda>p f. None), fit_transform = (\<lambda>f. Inr []),
      isolation_forest = (\<lambda>n c g X. Inr [1, - 1]), seeded_rng = (\<lambda>s. s), global_rng = 0,
      to_csv = (\<lambda>p f. None)\<rparr>"

definition demo_request :: request where
  "demo_request = \<lparr>filename = ''a.csv'', content = ''bytes''\<rparr>"

text \<open>The table that line 101 leaves for the small upload.\<close>

definition demo_table :: frame where
  "demo_table =
     \<lparr>columns = canonical_cols,
      rows = [[Str ''2020-01-01'', Str ''B'', Str ''v1'', Num 10],
              [Str ''not-a-date'', Str ''A'', Str ''v1'', Num 10],
              [Str ''2020-01-02'', Str ''A'', Str ''v2'', Num 99],
              [Str ''2020-01-03'', NaN, Str ''v2'', Num 99]]\<rparr>"

text \<open>
  The percentage in the words of the specification, \<open>round(100 * fraud_count /
  total_transactions, 2)\<close>, evaluated as Python evaluates it: the product is an exact
  integer, the quotient is rounded once.
\<close>

definition spec_percentage :: "int \<Rightarrow> int \<Rightarrow> string + rat" where
  "spec_percentage fraud_count total_transactions =
     bind_exn (int_truediv (100 * fraud_count) total_transactions) (\<lambda>q. Inr (py_round2 q))"

text \<open>
  An upload of 4000 rows: 3989 equal rows and 11 equal rows with a far larger amount,
  of which the forest flags the latter (the 3989 equal scores lie on the threshold of the
  contamination quantile, the 11 others below it).
\<close>

definition rounding_frame :: frame where
  "rounding_frame =
     \<lparr>columns = [''transaction_date'', ''agency_name'', ''vendor'', ''amount''],
      rows = replicate 3989 [Str ''2024-01-01'', Str ''Police'', Str ''Acme'', Num 10]
             @ replicate 11 [Str ''2024-01-01'', Str ''Police'', Str ''Acme'', Num 1000000]\<rparr>"

definition rounding_env :: env where
  "rounding_env =
     demo_env\<lparr>read_csv := (\<lambda>b. Inr rounding_frame),
              isolation_forest := (\<lambda>n c g X. Inr (replicate 3989 1 @ replicate 11 (- 1)))\<rparr>"

text \<open>
  An upload in which cleaning drops every row: one date does not parse and one is
  missing. The scaler refuses an empty matrix, as scikit-learn does.
\<close>

definition dropped_table :: frame where
  "dropped_table =
     \<lparr>columns = canonical_cols,
      rows = [[Str ''not-a-date'', Str ''A'', Str ''v1'', Num 10],
              [NaN, Str ''B'', Str ''v2'', Num 20]]\<rparr>"

definition env_all_dropped :: env where
  "env_all_dropped =
     demo_env\<lparr>read_csv := (\<lambda>b. Inr \<lparr>columns = [''Transaction Date'', ''Agency Name'', ''Vendor'', ''Amount''],
                                      rows = rows dropped_table\<rparr>),
              fit_transform := (\<lambda>F. if rows F = []
                 then Inl ''Found array with 0 sample(s) (shape=(0, 5)) while a minimum of 1 is required by StandardScaler.''
                 else Inr []),
              isolation_forest := (\<lambda>n c g X. Inr [])\<rparr>"

text \<open>
  An upload with the four required columns and a fifth one, \<open>Amount\<close>, whose
  normalised name is that of the required column \<open>amount\<close>.
\<close>

definition env_two_amounts :: env where
  "env_two_amounts =
     demo_env\<lparr>read_csv := (\<lambda>b. Inr \<lparr>columns = [''transaction_date'', ''agency_name'', ''vendor'', ''amount'', ''Amount''],
                                      rows = [[Str ''2020-01-01'', Str ''B'', Str ''v1'', Num 10, Num 10]]\<rparr>)\<rparr>"

text \<open>
  The codes in the words of the specification: each distinct value gets the next
  integer in the order in which the values are first seen in the column.
\<close>

definition first_seen :: "cell list \<Rightarrow> cell list" where
  "first_seen xs = rev (remdups (rev xs))"

definition first_seen_codes :: "cell list \<Rightarrow> int list" where
  "first_seen_codes xs = map (\<lambda>x. int (index_of x (first_seen xs))) xs"

text \<open>A cleaned table of two rows whose agencies are not in alphabetical order.\<close>

definition codes_table :: frame where
  "codes_table =
     \<lparr>columns = canonical_cols,
      rows = [[Ts 1577836800000000000, Str ''Police'', Str ''v1'', Num 10],
              [Ts 1577836800000000000, Str ''Health'', Str ''v1'', Num 20]]\<rparr>"

text \<open>An upload without the vendor column, and one that pandas cannot parse.\<close>

definition env_no_vendor :: env where
  "env_no_vendor =
     demo_env\<lparr>read_csv := (\<lambda>b. Inr \<lparr>columns = [''Transaction Date'', ''Agency Name'', ''Amount''],
                                     rows = [[Str ''2020-01-01'', Str ''B'', Num 10]]\<rparr>)\<rparr>"

definition env_unreadable :: env where
  "env_unreadable = demo_env\<lparr>read_csv := (\<lambda>b. Inl ''No columns to parse from file'')\<rparr>"

text \<open>A server that holds the results of an earlier run.\<close>

definition previous_results :: server where
  "previous_results =
     startup\<lparr>results_data := result_set ''<table>'' [''info''] [''eda''] ''<table>'' 1 2 50\<rparr>"

section \<open>Properties of the frame operations\<close>

lemma bind_exn_simps [simp]:
  "bind_exn (Inl e) f = Inl e" "bind_exn (Inr x) f = f x"
  by (simp_all add: bind_exn_def)

lemma bind_exn_Inr_iff: "bind_exn m f = Inr y \<longleftrightarrow> (\<exists>x. m = Inr x \<and> f x = Inr y)"
  by (cases m) simp_all

lemma index_of_less: "x \<in> set xs \<Longrightarrow> index_of x xs < length xs"
  by (induction xs) auto

lemma index_of_append: "x \<in> set xs \<Longrightarrow> index_of x (xs @ ys) = index_of x xs"
  by (induction xs) auto

lemma index_of_fresh: "x \<notin> set xs \<Longrightarrow> index_of x (xs @ [x]) = length xs"
  by (induction xs) auto

lemma nth_index_of: "x \<in> set xs \<Longrightarrow> xs ! index_of x xs = x"
  by (induction xs) auto

lemma length_positions_from: "length (positions_from i ns k) = length (filter (\<lambda>n. n = k) ns)"
  by (induction ns arbitrary: i) auto

lemma stage_load_Next:
  assumes "stage_load env b = Next (df, h)"
  shows "columns df = canonical_cols \<and> rectangular df"
  using assms
  by (auto simp: stage_load_def Let_def bind_exn_Inr_iff getitem_list_def set_columns_def
      rectangular_def list_all_iff split: sum.splits if_splits)

lemma stage_load_Returned:
  assumes "stage_load env b = Returned r"
  shows "\<exists>cols. r = Response (''Required columns missing. Found: '' @ repr_list cols) 400"
  using assms
  by (auto simp: stage_load_def Let_def split: sum.splits if_splits)

lemma setitem_new:
  assumes "c \<notin> set (columns df)" "length vs = length (rows df)"
  shows "setitem c vs df = Inr \<lparr>columns = columns df @ [c], rows = map2 (\<lambda>r v. r @ [v]) (rows df) vs\<rparr>"
  using assms by (simp add: setitem_def)

lemma rectangular_append_col:
  assumes "rectangular df"
  shows "rectangular \<lparr>columns = columns df @ [c], rows = map2 (\<lambda>r v. r @ [v]) (rows df) vs\<rparr>"
  using assms by (auto simp: rectangular_def list_all_iff dest: set_zip_leftD)

lemma getitem_append_col_old:
  assumes "rectangular df" "c' \<in> set (columns df)" "length vs = length (rows df)"
  shows "getitem c' \<lparr>columns = columns df @ [c], rows = map2 (\<lambda>r v. r @ [v]) (rows df) vs\<rparr> = getitem c' df"
proof -
  have i: "index_of c' (columns df) < length (columns df)" using assms(2) by (rule index_of_less)
  have "map (\<lambda>r. r ! index_of c' (columns df)) (map2 (\<lambda>r v. r @ [v]) (rows df) vs)
      = map (\<lambda>r. r ! index_of c' (columns df)) (rows df)"
  proof (rule nth_equalityI)
    show "length (map (\<lambda>r. r ! index_of c' (columns df)) (map2 (\<lambda>r v. r @ [v]) (rows df) vs))
      = length (map (\<lambda>r. r ! index_of c' (columns df)) (rows df))"
      using assms(3) by simp
  next
    fix k assume "k < length (map (\<lambda>r. r ! index_of c' (columns df)) (map2 (\<lambda>r v. r @ [v]) (rows df) vs))"
    then have k: "k < length (rows df)" using assms(3) by simp
    then have "length (rows df ! k) = length (columns df)"
      using assms(1) by (simp add: rectangular_def list_all_length)
    then show "map (\<lambda>r. r ! index_of c' (columns df)) (map2 (\<lambda>r v. r @ [v]) (rows df) vs) ! k
      = map (\<lambda>r. r ! index_of c' (columns df)) (rows df) ! k"
      using k i assms(3) by (simp add: nth_append)
  qed
  then show ?thesis using assms(2) by (simp add: getitem_def index_of_append)
qed

lemma getitem_append_col_new:
  assumes "rectangular df" "c \<notin> set (columns df)" "length vs = length (rows df)"
  shows "getitem c \<lparr>columns = columns df @ [c], rows = map2 (\<lambda>r v. r @ [v]) (rows df) vs\<rparr> = Inr vs"
proof -
  have "map (\<lambda>r. r ! length (columns df)) (map2 (\<lambda>r v. r @ [v]) (rows df) vs) = vs"
  proof (rule nth_equalityI)
    show "length (map (\<lambda>r. r ! length (columns df)) (map2 (\<lambda>r v. r @ [v]) (rows df) vs)) = length vs"
      using assms(3) by simp
  next
    fix k assume "k < length (map (\<lambda>r. r ! length (columns df)) (map2 (\<lambda>r v. r @ [v]) (rows df) vs))"
    then have k: "k < length (rows df)" using assms(3) by simp
    then have "length (rows df ! k) = length (columns df)"
      using assms(1) by (simp add: rectangular_def list_all_length)
    then show "map (\<lambda>r. r ! length (columns df)) (map2 (\<lambda>r v. r @ [v]) (rows df) vs) ! k = vs ! k"
      using k assms(3) by (simp add: nth_append)
  qed
  then show ?thesis using assms(2) by (simp add: getitem_def index_of_fresh)
qed

lemma take_append_col:
  assumes "rectangular df" "length vs = length (rows df)"
  shows "map (take (length (columns df))) (map2 (\<lambda>r v. r @ [v]) (rows df) vs) = rows df"
proof (rule nth_equalityI)
  show "length (map (take (length (columns df))) (map2 (\<lambda>r v. r @ [v]) (rows df) vs)) = length (rows df)"
    using assms(2) by simp
next
  fix k assume "k < length (map (take (length (columns df))) (map2 (\<lambda>r v. r @ [v]) (rows df) vs))"
  then have k: "k < length (rows df)" using assms(2) by simp
  then have "length (rows df ! k) = length (columns df)"
    using assms(1) by (simp add: rectangular_def list_all_length)
  then show "map (take (length (columns df))) (map2 (\<lambda>r v. r @ [v]) (rows df) vs) ! k = rows df ! k"
    using k assms(2) by simp
qed

lemma getitem_column: "c \<in> set (columns df) \<Longrightarrow> getitem c df = Inr (column c df)"
  by (simp add: getitem_def column_def)

lemma length_column [simp]: "length (column c df) = length (rows df)"
  by (simp add: column_def)

lemma setitem_add_column:
  "c \<notin> set (columns df) \<Longrightarrow> length vs = length (rows df) \<Longrightarrow> setitem c vs df = Inr (add_column c vs df)"
  by (simp add: setitem_new add_column_def)

lemma columns_add_column [simp]: "columns (add_column c vs df) = columns df @ [c]"
  by (simp add: add_column_def)

lemma length_rows_add_column [simp]:
  "length vs = length (rows df) \<Longrightarrow> length (rows (add_column c vs df)) = length (rows df)"
  by (simp add: add_column_def)

lemma rectangular_add_column: "rectangular df \<Longrightarrow> rectangular (add_column c vs df)"
  unfolding add_column_def by (rule rectangular_append_col)

lemma column_add_column_old:
  assumes "rectangular df" "c' \<in> set (columns df)" "length vs = length (rows df)"
  shows "column c' (add_column c vs df) = column c' df"
proof -
  have "getitem c' (add_column c vs df) = getitem c' df"
    unfolding add_column_def using assms by (rule getitem_append_col_old)
  then show ?thesis using assms(2) by (simp add: getitem_column)
qed

lemma column_add_column_new:
  assumes "rectangular df" "c \<notin> set (columns df)" "length vs = length (rows df)"
  shows "column c (add_column c vs df) = vs"
proof -
  have "getitem c (add_column c vs df) = Inr vs"
    unfolding add_column_def using assms by (rule getitem_append_col_new)
  then show ?thesis by (simp add: getitem_column)
qed

lemma take_add_column:
  assumes "rectangular df" "length vs = length (rows df)" "n \<le> length (columns df)"
  shows "map (take n) (rows (add_column c vs df)) = map (take n) (rows df)"
proof -
  have "map (take n) (rows (add_column c vs df))
      = map (take n) (map (take (length (columns df))) (rows (add_column c vs df)))"
    using assms(3) by (simp add: min_def)
  also have "map (take (length (columns df))) (rows (add_column c vs df)) = rows df"
    unfolding add_column_def using take_append_col [OF assms(1,2)] by simp
  finally show ?thesis .
qed

lemma length_code_cells [simp]: "length (code_cells xs) = length xs"
  by (simp add: code_cells_def cat_codes_def)

lemma stage_features_eq:
  assumes c: "columns df = canonical_cols" and r: "rectangular df"
  shows "stage_features env df = Inr (features env df)"
proof -
  let ?m = "map (dt_field (dt_month env)) (column ''TRANSACTION_DATE'' df)"
  let ?d = "map (dt_field (dt_dayofweek env)) (column ''TRANSACTION_DATE'' df)"
  let ?d1 = "add_column ''Month'' ?m df"
  let ?d2 = "add_column ''DayOfWeek'' ?d ?d1"
  let ?d3 = "add_column ''AGENCY_CODE'' (code_cells (column ''AGENCY_NAME'' df)) ?d2"
  have r1: "rectangular ?d1" using r by (rule rectangular_add_column)
  have r2: "rectangular ?d2" using r1 by (rule rectangular_add_column)
  have r3: "rectangular ?d3" using r2 by (rule rectangular_add_column)
  have s1: "setitem ''Month'' ?m df = Inr ?d1"
    by (rule setitem_add_column) (simp_all add: c canonical_cols_def)
  have g1: "column ''TRANSACTION_DATE'' ?d1 = column ''TRANSACTION_DATE'' df"
    by (rule column_add_column_old [OF r]) (simp_all add: c canonical_cols_def)
  have s2: "setitem ''DayOfWeek'' ?d ?d1 = Inr ?d2"
    by (rule setitem_add_column) (simp_all add: c canonical_cols_def)
  have g2: "column ''AGENCY_NAME'' ?d2 = column ''AGENCY_NAME'' df"
    using column_add_column_old [OF r1, of "''AGENCY_NAME''" ?d "''DayOfWeek''"]
      column_add_column_old [OF r, of "''AGENCY_NAME''" ?m "''Month''"]
    by (simp add: c canonical_cols_def)
  have s3: "setitem ''AGENCY_CODE'' (code_cells (column ''AGENCY_NAME'' df)) ?d2 = Inr ?d3"
    by (rule setitem_add_column) (simp_all add: c canonical_cols_def)
  have g3: "column ''MERCHANT_NAME'' ?d3 = column ''MERCHANT_NAME'' df"
    using column_add_column_old [OF r2, of "''MERCHANT_NAME''" "code_cells (column ''AGENCY_NAME'' df)" "''AGENCY_CODE''"]
      column_add_column_old [OF r1, of "''MERCHANT_NAME''" ?d "''DayOfWeek''"]
      column_add_column_old [OF r, of "''MERCHANT_NAME''" ?m "''Month''"]
    by (simp add: c canonical_cols_def)
  have s4: "setitem ''MERCHANT_CODE'' (code_cells (column ''MERCHANT_NAME'' df)) ?d3 = Inr (features env df)"
    unfolding features_def by (rule setitem_add_column) (simp_all add: c canonical_cols_def)
  have k1: "getitem ''TRANSACTION_DATE'' df = Inr (column ''TRANSACTION_DATE'' df)"
    by (rule getitem_column) (simp add: c canonical_cols_def)
  have k2: "getitem ''TRANSACTION_DATE'' ?d1 = Inr (column ''TRANSACTION_DATE'' df)"
    using g1 by (simp add: getitem_column c canonical_cols_def)
  have k3: "getitem ''AGENCY_NAME'' ?d2 = Inr (column ''AGENCY_NAME'' df)"
    using g2 by (simp add: getitem_column c canonical_cols_def)
  have k4: "getitem ''MERCHANT_NAME'' ?d3 = Inr (column ''MERCHANT_NAME'' df)"
    using g3 by (simp add: getitem_column c canonical_cols_def)
  show ?thesis
    unfolding stage_features_def by (simp only: k1 k2 k3 k4 s1 s2 s3 s4 bind_exn_simps)
qed

lemma upload_success:
  assumes "fst (upload env req st) = Redirect ''/results''"
  shows "\<exists>df0 h df1 info df2 eda fig sc flags pct.
    filename req \<noteq> [] \<and>
    stage_load env (content req) = Next (df0, h) \<and>
    stage_clean env df0 = Inr (df1, info) \<and>
    stage_features env df1 = Inr df2 \<and>
    stage_eda env df2 = Inr (eda, fig) \<and>
    stage_model env df2 = Inr sc \<and>
    getitem ''Anomaly'' sc = Inr flags \<and>
    fraud_percentage (int (length (rows (getitem_mask (map is_anomaly flags) sc))))
      (int (length (rows sc))) = Inr pct \<and>
    results_data (snd (upload env req st)) =
      dict_update (results_data st)
        (result_set h info eda (to_html env ''table table-striped'' (getitem_mask (map is_anomaly flags) sc))
           (int (length (rows (getitem_mask (map is_anomaly flags) sc)))) (int (length (rows sc))) pct) \<and>
    result_folder (snd (upload env req st)) =
      (result_folder st)(''fraud_report.csv'' \<mapsto> getitem_mask (map is_anomaly flags) sc)"
  using assms
  by (auto simp: upload_def upload_try_def Let_def bind_exn_Inr_iff
      split: if_splits step.splits sum.splits option.splits prod.splits
      dest!: stage_load_Returned)

lemma upload_failure:
  assumes "fst (upload env req st) \<noteq> Redirect ''/results''"
  shows "results_data (snd (upload env req st)) = results_data st"
  using assms
  by (auto simp: upload_def upload_try_def Let_def
      split: if_splits step.splits sum.splits option.splits prod.splits)

section \<open>The stages in closed form\<close>

lemma canonical_index [simp]:
  "index_of ''TRANSACTION_DATE'' canonical_cols = 0"
  by (simp add: canonical_cols_def)

lemma map2_same: "map2 f xs (map h xs) = map (\<lambda>x. f x (h x)) xs"
  by (induction xs) simp_all

lemma stage_clean_eq:
  assumes c: "columns df = canonical_cols" and r: "rectangular df"
  shows "stage_clean env df =
    Inr (cleaned env df,
         [''Initial Shape: '' @ shape_str df,
          ''Missing Values:'' @ newline @ isnull_sum_text env df,
          ''After Cleaning Shape: '' @ shape_str (cleaned env df)])"
proof -
  let ?nn = "filter (\<lambda>r. \<not> list_ex isnull r) (rows df)"
  let ?g = "coerce_cell env (date_context df)"
  let ?F = "\<lambda>r. r[0 := ?g (r ! 0)]"
  have td: "''TRANSACTION_DATE'' \<in> set (columns df)" by (simp add: c canonical_cols_def)
  have g1: "getitem ''TRANSACTION_DATE'' (dropna df) = Inr (date_context df)"
    using td by (simp add: getitem_def dropna_def date_context_def c)
  have cd: "coerce_dates env (date_context df) = map (\<lambda>r. ?g (r ! 0)) ?nn"
    by (simp add: coerce_dates_def date_context_def)
  have s1: "setitem ''TRANSACTION_DATE'' (coerce_dates env (date_context df)) (dropna df)
      = Inr (df\<lparr>rows := map ?F ?nn\<rparr>)"
    using td by (simp add: setitem_def cd dropna_def c map2_same [where h = "\<lambda>r. ?g (r ! 0)"])
  have len: "\<And>x. x \<in> set (rows df) \<Longrightarrow> length x = 4"
    using r by (simp add: rectangular_def list_all_iff c canonical_cols_def)
  have keep: "filter (\<lambda>r. \<not> isnull (r ! 0)) (map ?F ?nn)
      = map ?F (filter (\<lambda>r. \<not> spec_dropped env df r) (rows df))"
  proof -
    have "filter (\<lambda>r. \<not> isnull (r ! 0)) (map ?F ?nn) = map ?F (filter (\<lambda>r. \<not> isnull (?F r ! 0)) ?nn)"
      by (simp add: filter_map comp_def)
    also have "filter (\<lambda>r. \<not> isnull (?F r ! 0)) ?nn = filter (\<lambda>r. \<not> spec_dropped env df r) (rows df)"
      using len
      by (auto simp: spec_dropped_def isnull_def coerce_cell_def intro!: filter_cong split: option.splits)
    finally show ?thesis .
  qed
  have s2: "dropna_subset ''TRANSACTION_DATE'' (df\<lparr>rows := map ?F ?nn\<rparr>) = Inr (cleaned env df)"
    using td keep by (simp add: dropna_subset_def cleaned_def with_parsed_date_def c)
  show ?thesis
    unfolding stage_clean_def Let_def by (simp only: g1 s1 s2 bind_exn_simps)
qed

lemma columns_cleaned [simp]: "columns (cleaned env df) = columns df"
  by (simp add: cleaned_def)

lemma rectangular_cleaned: "rectangular df \<Longrightarrow> rectangular (cleaned env df)"
  by (auto simp: rectangular_def cleaned_def list_all_iff with_parsed_date_def)

lemma columns_features [simp]:
  "columns (features env df) = columns df @ [''Month'', ''DayOfWeek'', ''AGENCY_CODE'', ''MERCHANT_CODE'']"
  by (simp add: features_def)

lemma length_rows_features [simp]: "length (rows (features env df)) = length (rows df)"
  by (simp add: features_def)

lemma rectangular_features: "rectangular df \<Longrightarrow> rectangular (features env df)"
  unfolding features_def by (intro rectangular_add_column)

lemma stage_eda_eq:
  assumes c: "columns df = canonical_cols @ [''Month'', ''DayOfWeek'', ''AGENCY_CODE'', ''MERCHANT_CODE'']"
  shows "stage_eda env df =
    Inr ([''Top 5 Agencies:'' @ newline @ value_counts_head_text env (column ''AGENCY_NAME'' df),
          ''Top 5 Merchants:'' @ newline @ value_counts_head_text env (column ''MERCHANT_NAME'' df),
          ''Transaction Amount Stats:'' @ newline @ describe_text env (column ''TRANSACTION_AMOUNT'' df),
          ''Transactions per Month:'' @ newline @ value_counts_sort_index_text env (column ''Month'' df)],
         Histplot (column ''TRANSACTION_AMOUNT'' df) 100)"
  by (simp add: stage_eda_def getitem_column c canonical_cols_def)

lemma stage_model_Inr:
  assumes c: "columns df = canonical_cols @ [''Month'', ''DayOfWeek'', ''AGENCY_CODE'', ''MERCHANT_CODE'']"
    and m: "stage_model env df = Inr sc"
  shows "\<exists>F X labels. getitem_list feature_cols df = Inr F \<and> fit_transform env F = Inr X \<and>
     isolation_forest env 100 (float_round (2 / 100)) (seeded_rng env 42) X = Inr labels \<and>
     length labels = length (rows df) \<and> sc = scored labels df"
  using m
  by (auto simp: stage_model_def bind_exn_Inr_iff fit_predict_def model_def check_random_state_def
      setitem_def scored_def add_column_def c canonical_cols_def split: if_splits)

lemma is_anomaly_label [simp]: "is_anomaly (Num (of_int l)) \<longleftrightarrow> l = - 1"
proof -
  have "(of_int l :: rat) = of_int (- 1) \<longleftrightarrow> l = - 1" by (rule of_int_eq_iff)
  then show ?thesis by (simp add: is_anomaly_def)
qed

lemma getitem_anomaly_scored:
  assumes c: "columns df = canonical_cols @ [''Month'', ''DayOfWeek'', ''AGENCY_CODE'', ''MERCHANT_CODE'']"
    and r: "rectangular df" and l: "length labels = length (rows df)"
  shows "getitem ''Anomaly'' (scored labels df) = Inr (map (\<lambda>l. Num (of_int l)) labels)"
proof -
  have "column ''Anomaly'' (scored labels df) = map (\<lambda>l. Num (of_int l)) labels"
    unfolding scored_def using r by (rule column_add_column_new) (simp_all add: c canonical_cols_def l)
  then show ?thesis by (simp add: getitem_column scored_def)
qed

lemma length_filter_zip_map:
  "length xs = length ys \<Longrightarrow> length (filter snd (zip xs (map P ys))) = length (filter P ys)"
proof (induction xs arbitrary: ys)
  case Nil
  then show ?case by simp
next
  case (Cons x xs)
  then show ?case by (cases ys) simp_all
qed

lemma subseq_mask: "subseq (map fst (filter snd (zip xs bs))) xs"
proof (induction xs arbitrary: bs)
  case Nil
  then show ?case by simp
next
  case (Cons x xs)
  show ?case
  proof (cases bs)
    case Nil
    then show ?thesis by simp
  next
    case (Cons b bs')
    then show ?thesis using Cons.IH [of bs'] by (cases b) (simp_all add: list_emb_Cons)
  qed
qed

lemma columns_scored [simp]: "columns (scored labels df) = columns df @ [''Anomaly'']"
  by (simp add: scored_def)

lemma length_rows_scored [simp]:
  "length labels = length (rows df) \<Longrightarrow> length (rows (scored labels df)) = length (rows df)"
  by (simp add: scored_def)

lemma rectangular_scored: "rectangular df \<Longrightarrow> rectangular (scored labels df)"
  unfolding scored_def by (rule rectangular_add_column)

lemma columns_flagged [simp]: "columns (flagged labels df) = columns df @ [''Anomaly'']"
  by (simp add: flagged_def getitem_mask_def)

lemma length_rows_flagged:
  "length labels = length (rows df) \<Longrightarrow>
     length (rows (flagged labels df)) = length (filter (\<lambda>l. l = - 1) labels)"
  by (simp add: flagged_def getitem_mask_def length_filter_zip_map)

lemma rows_flagged_subseq: "subseq (rows (flagged labels df)) (rows (scored labels df))"
  by (simp add: flagged_def getitem_mask_def subseq_mask)

lemma rectangular_flagged: "rectangular df \<Longrightarrow> rectangular (flagged labels df)"
proof -
  assume "rectangular df"
  then have "rectangular (scored labels df)" by (rule rectangular_scored)
  moreover have "set (rows (flagged labels df)) \<subseteq> set (rows (scored labels df))"
    using rows_flagged_subseq [of labels df] by (auto dest: list_emb_set)
  ultimately show ?thesis
    by (auto simp: rectangular_def list_all_iff)
qed

lemma take4_features:
  assumes c: "columns df = canonical_cols" and r: "rectangular df"
  shows "map (take 4) (rows (features env df)) = rows df"
proof -
  let ?m = "map (dt_field (dt_month env)) (column ''TRANSACTION_DATE'' df)"
  let ?d = "map (dt_field (dt_dayofweek env)) (column ''TRANSACTION_DATE'' df)"
  let ?d1 = "add_column ''Month'' ?m df"
  let ?d2 = "add_column ''DayOfWeek'' ?d ?d1"
  let ?d3 = "add_column ''AGENCY_CODE'' (code_cells (column ''AGENCY_NAME'' df)) ?d2"
  have r1: "rectangular ?d1" using r by (rule rectangular_add_column)
  have r2: "rectangular ?d2" using r1 by (rule rectangular_add_column)
  have r3: "rectangular ?d3" using r2 by (rule rectangular_add_column)
  have "map (take 4) (rows (features env df)) = map (take 4) (rows ?d3)"
    unfolding features_def by (rule take_add_column [OF r3]) (simp_all add: c canonical_cols_def)
  also have "\<dots> = map (take 4) (rows ?d2)"
    by (rule take_add_column [OF r2]) (simp_all add: c canonical_cols_def)
  also have "\<dots> = map (take 4) (rows ?d1)"
    by (rule take_add_column [OF r1]) (simp_all add: c canonical_cols_def)
  also have "\<dots> = map (take 4) (rows df)"
    by (rule take_add_column [OF r]) (simp_all add: c canonical_cols_def)
  also have "\<dots> = rows df"
    using r by (auto simp: rectangular_def list_all_iff c canonical_cols_def intro!: map_idI)
  finally show ?thesis .
qed

lemma take4_scored:
  assumes c: "columns df = canonical_cols @ [''Month'', ''DayOfWeek'', ''AGENCY_CODE'', ''MERCHANT_CODE'']"
    and r: "rectangular df" and l: "length labels = length (rows df)"
  shows "map (take 4) (rows (scored labels df)) = map (take 4) (rows df)"
  unfolding scored_def by (rule take_add_column [OF r]) (simp_all add: c canonical_cols_def l)

lemma upload_success_closed:
  assumes "fst (upload env req st) = Redirect ''/results''"
  shows "\<exists>df0 h labels pct F X info eda.
    filename req \<noteq> [] \<and>
    stage_load env (content req) = Next (df0, h) \<and>
    columns df0 = canonical_cols \<and> rectangular df0 \<and>
    stage_clean env df0 = Inr (cleaned env df0, info) \<and>
    stage_features env (cleaned env df0) = Inr (features env (cleaned env df0)) \<and>
    stage_model env (features env (cleaned env df0)) = Inr (scored labels (features env (cleaned env df0))) \<and>
    getitem ''Anomaly'' (scored labels (features env (cleaned env df0))) = Inr (map (\<lambda>l. Num (of_int l)) labels) \<and>
    getitem_list feature_cols (features env (cleaned env df0)) = Inr F \<and>
    fit_transform env F = Inr X \<and>
    isolation_forest env 100 (float_round (2 / 100)) (seeded_rng env 42) X = Inr labels \<and>
    length labels = length (rows (cleaned env df0)) \<and>
    fraud_percentage (int (length (filter (\<lambda>l. l = - 1) labels)))
      (int (length (rows (cleaned env df0)))) = Inr pct \<and>
    results_data (snd (upload env req st)) =
      dict_update (results_data st)
        (result_set h info eda
           (to_html env ''table table-striped'' (flagged labels (features env (cleaned env df0))))
           (int (length (filter (\<lambda>l. l = - 1) labels))) (int (length (rows (cleaned env df0)))) pct) \<and>
    result_folder (snd (upload env req st)) =
      (result_folder st)(''fraud_report.csv'' \<mapsto> flagged labels (features env (cleaned env df0)))"
proof -
  from upload_success [OF assms] obtain df0 h df1 info df2 eda fig sc flags pct where
    n: "filename req \<noteq> []" and
    l: "stage_load env (content req) = Next (df0, h)" and
    cl: "stage_clean env df0 = Inr (df1, info)" and
    fe: "stage_features env df1 = Inr df2" and
    mo: "stage_model env df2 = Inr sc" and
    an: "getitem ''Anomaly'' sc = Inr flags" and
    fp: "fraud_percentage (int (length (rows (getitem_mask (map is_anomaly flags) sc))))
      (int (length (rows sc))) = Inr pct" and
    rd: "results_data (snd (upload env req st)) =
      dict_update (results_data st)
        (result_set h info eda (to_html env ''table table-striped'' (getitem_mask (map is_anomaly flags) sc))
           (int (length (rows (getitem_mask (map is_anomaly flags) sc)))) (int (length (rows sc))) pct)" and
    rf: "result_folder (snd (upload env req st)) =
      (result_folder st)(''fraud_report.csv'' \<mapsto> getitem_mask (map is_anomaly flags) sc)"
    by blast
  have c0: "columns df0 = canonical_cols" using stage_load_Next [OF l] by (rule conjunct1)
  have r0: "rectangular df0" using stage_load_Next [OF l] by (rule conjunct2)
  have df1: "df1 = cleaned env df0" using cl stage_clean_eq [OF c0 r0, of env] by simp
  have c1: "columns df1 = canonical_cols" by (simp add: df1 c0)
  have r1: "rectangular df1" unfolding df1 using r0 by (rule rectangular_cleaned)
  have df2: "df2 = features env df1" using fe stage_features_eq [OF c1 r1, of env] by simp
  have c2: "columns df2 = canonical_cols @ [''Month'', ''DayOfWeek'', ''AGENCY_CODE'', ''MERCHANT_CODE'']"
    by (simp add: df2 c1)
  have r2: "rectangular df2" unfolding df2 using r1 by (rule rectangular_features)
  from stage_model_Inr [OF c2 mo] obtain F X labels where
    gl: "getitem_list feature_cols df2 = Inr F" and ft: "fit_transform env F = Inr X" and
    fo: "isolation_forest env 100 (float_round (2 / 100)) (seeded_rng env 42) X = Inr labels" and
    len: "length labels = length (rows df2)" and sc: "sc = scored labels df2"
    by blast
  have flags: "flags = map (\<lambda>l. Num (of_int l)) labels"
    using an getitem_anomaly_scored [OF c2 r2 len] by (simp add: sc)
  have fl: "getitem_mask (map is_anomaly flags) sc = flagged labels df2"
    by (simp add: flags sc flagged_def comp_def)
  have n1: "length (rows (flagged labels df2)) = length (filter (\<lambda>l. l = - 1) labels)"
    using len by (rule length_rows_flagged)
  have n2: "length (rows sc) = length (rows (cleaned env df0))"
    using len by (simp add: sc df2 df1)
  have len': "length labels = length (rows (cleaned env df0))"
    using len by (simp add: df2 df1)
  have fp': "fraud_percentage (int (length (filter (\<lambda>l. l = - 1) labels)))
      (int (length (rows (cleaned env df0)))) = Inr pct"
    using fp by (simp only: fl n1 n2)
  have rd': "results_data (snd (upload env req st)) =
      dict_update (results_data st)
        (result_set h info eda
           (to_html env ''table table-striped'' (flagged labels (features env (cleaned env df0))))
           (int (length (filter (\<lambda>l. l = - 1) labels))) (int (length (rows (cleaned env df0)))) pct)"
    using rd by (simp only: fl n1 n2) (simp only: df2 df1)
  have rf': "result_folder (snd (upload env req st)) =
      (result_folder st)(''fraud_report.csv'' \<mapsto> flagged labels (features env (cleaned env df0)))"
    using rf by (simp only: fl df2 df1)
  have gl': "getitem_list feature_cols (features env (cleaned env df0)) = Inr F"
    using gl by (simp only: df2 df1)
  have cl': "stage_clean env df0 = Inr (cleaned env df0, info)"
    using cl by (simp only: df1)
  have fe': "stage_features env (cleaned env df0) = Inr (features env (cleaned env df0))"
    using fe by (simp only: df2 df1)
  have mo': "stage_model env (features env (cleaned env df0)) = Inr (scored labels (features env (cleaned env df0)))"
    using mo by (simp only: sc df2 df1)
  have an': "getitem ''Anomaly'' (scored labels (features env (cleaned env df0))) = Inr (map (\<lambda>l. Num (of_int l)) labels)"
    using an by (simp only: flags sc df2 df1)
  show ?thesis
    using n l c0 r0 cl' fe' mo' an' gl' ft fo len' fp' rd' rf' by blast
qed

lemma map_of_dict_set: "map_of (dict_set k v d) = (map_of d)(k \<mapsto> v)"
  by (induction d) (auto simp: fun_eq_iff)

lemma map_of_dict_update: "map_of (dict_update d kvs) = map_of d ++ map_of (rev kvs)"
proof (induction kvs arbitrary: d)
  case Nil
  then show ?case by simp
next
  case (Cons kv kvs)
  obtain k v where kv: "kv = (k, v)" by (cases kv)
  show ?case
    by (simp add: kv Cons.IH map_of_dict_set fun_eq_iff map_add_def split: option.splits)
qed

lemma map_of_result_set:
  "map_of (dict_update d (result_set h info eda html fc tt pct)) ''fraud_count'' = Some (PyInt fc)"
  "map_of (dict_update d (result_set h info eda html fc tt pct)) ''total_transactions'' = Some (PyInt tt)"
  "map_of (dict_update d (result_set h info eda html fc tt pct)) ''fraud_percentage'' = Some (PyFloat pct)"
  by (simp_all add: map_of_dict_set result_set_def)

lemma fraud_percentage_Inr:
  "fraud_percentage fc tt = Inr pct \<longleftrightarrow>
     tt \<noteq> 0 \<and> pct = py_round2 (float_mul (float_round (of_int fc / of_int tt)) 100)"
  by (auto simp: fraud_percentage_def int_truediv_def)

lemma stage_model_eq:
  assumes c: "columns df = canonical_cols @ [''Month'', ''DayOfWeek'', ''AGENCY_CODE'', ''MERCHANT_CODE'']"
    and ft: "\<And>F. fit_transform env F = Inr X"
    and fo: "isolation_forest env 100 (float_round (2 / 100)) (seeded_rng env 42) X = Inr labels"
    and len: "length labels = length (rows df)"
  shows "stage_model env df = Inr (scored labels df)"
  using fo len
  by (simp add: stage_model_def getitem_list_def feature_cols_def c canonical_cols_def Let_def ft
      fit_predict_def model_def check_random_state_def setitem_def scored_def add_column_def)

lemma upload_succeeds:
  assumes n: "filename req \<noteq> []"
    and sv: "save env (path_join ''upload'' (filename req)) (content req) = None"
    and l: "stage_load env (content req) = Next (df0, h)"
    and sf: "\<And>p f. savefig env p f = None"
    and csv: "\<And>p f. to_csv env p f = None"
    and ft: "\<And>F. fit_transform env F = Inr X"
    and fo: "isolation_forest env 100 (float_round (2 / 100)) (seeded_rng env 42) X = Inr labels"
    and len: "length labels = length (rows (cleaned env df0))"
    and nz: "rows (cleaned env df0) \<noteq> []"
  shows "fst (upload env req st) = Redirect ''/results''"
proof -
  let ?df1 = "cleaned env df0"
  let ?df2 = "features env ?df1"
  have c0: "columns df0 = canonical_cols" using stage_load_Next [OF l] by (rule conjunct1)
  have r0: "rectangular df0" using stage_load_Next [OF l] by (rule conjunct2)
  have c1: "columns ?df1 = canonical_cols" by (simp add: c0)
  have r1: "rectangular ?df1" using r0 by (rule rectangular_cleaned)
  have c2: "columns ?df2 = canonical_cols @ [''Month'', ''DayOfWeek'', ''AGENCY_CODE'', ''MERCHANT_CODE'']"
    by (simp add: c0)
  have r2: "rectangular ?df2" using r1 by (rule rectangular_features)
  have len2: "length labels = length (rows ?df2)" using len by simp
  have mo: "stage_model env ?df2 = Inr (scored labels ?df2)"
    using c2 ft fo len2 by (rule stage_model_eq)
  have an: "getitem ''Anomaly'' (scored labels ?df2) = Inr (map (\<lambda>l. Num (of_int l)) labels)"
    using c2 r2 len2 by (rule getitem_anomaly_scored)
  have fl: "getitem_mask (map (is_anomaly \<circ> (\<lambda>l. Num (of_int l))) labels) (scored labels ?df2)
      = flagged labels ?df2"
    by (simp add: flagged_def comp_def)
  have ag: "getitem ''AGENCY_NAME'' (flagged labels ?df2) = Inr (column ''AGENCY_NAME'' (flagged labels ?df2))"
    by (rule getitem_column) (simp add: c0 canonical_cols_def)
  have tt: "int (length (rows (scored labels ?df2))) \<noteq> 0"
    using nz len by simp
  show ?thesis
    using n tt
    by (simp add: upload_def upload_try_def sv l stage_clean_eq [OF c0 r0] stage_features_eq [OF c1 r1]
        stage_eda_eq [OF c2] sf csv mo an fl ag fraud_percentage_def int_truediv_def Let_def)
qed

section \<open>Failed uploads\<close>

lemma all_failed_keeps_results_data:
  "all_failed us st \<Longrightarrow> results_data (run_uploads us st) = results_data st"
proof (induction us arbitrary: st)
  case Nil
  then show ?case by simp
next
  case (Cons u us)
  obtain env req where u: "u = (env, req)" by (cases u)
  from Cons.prems have f: "fst (upload env req st) \<noteq> Redirect ''/results''"
    and r: "all_failed us (snd (upload env req st))" by (simp_all add: u)
  have "results_data (run_uploads us (snd (upload env req st))) = results_data (snd (upload env req st))"
    using r by (rule Cons.IH)
  also have "\<dots> = results_data st" using f by (rule upload_failure)
  finally show ?case by (simp add: u)
qed

lemma pages_depend_on_results_data:
  "results_data st' = results_data st \<Longrightarrow> results st' = results st \<and> dashboard st' = dashboard st"
  by (simp add: results_def dashboard_def)

lemma demo_saves:
  "save demo_env p b = None" "save env_no_vendor p b = None" "save env_unreadable p b = None"
  "save rounding_env p b = None" "save env_all_dropped p b = None" "save env_two_amounts p b = None"
  by (simp_all add: demo_env_def env_no_vendor_def env_unreadable_def rounding_env_def
      env_all_dropped_def env_two_amounts_def)

lemma demo_path: "path_join ''upload'' (filename demo_request) = ''upload/a.csv''"
  by (simp add: path_join_def demo_request_def)

lemma demo_filename: "filename demo_request \<noteq> []"
  by (simp add: demo_request_def)

lemma stage_load_no_vendor:
  "stage_load env_no_vendor b =
     Returned (Response (''Required columns missing. Found: '' @
       repr_list [''transaction_date'', ''agency_name'', ''amount'']) 400)"
  by (simp add: stage_load_def env_no_vendor_def demo_env_def Let_def normalise_col_def strip_def
      lower_def lower_char_def upper_letters_def lower_letters_def replace_blank_def is_space_def
      expected_cols_def)

lemma upload_no_vendor:
  "upload env_no_vendor demo_request st =
     (Response (''Required columns missing. Found: '' @
        repr_list [''transaction_date'', ''agency_name'', ''amount'']) 400,
      st\<lparr>upload_folder := (upload_folder st)(''upload/a.csv'' \<mapsto> ''bytes'')\<rparr>)"
  by (simp add: upload_def upload_try_def stage_load_no_vendor demo_saves demo_path)
    (simp add: demo_request_def)

lemma upload_unreadable:
  "upload env_unreadable demo_request st =
     (Response ''Error while processing file: No columns to parse from file'' 200,
      st\<lparr>upload_folder := (upload_folder st)(''upload/a.csv'' \<mapsto> ''bytes'')\<rparr>)"
  by (simp add: upload_def upload_try_def stage_load_def env_unreadable_def demo_env_def
      demo_request_def path_join_def)

text \<open>
  Claim C4. An upload that does not end in the redirect to the results page, because a
  stage raised or the handler returned an error response, leaves \<open>results_data\<close> as
  it was, so the results page and the dashboard show what they showed before; the same
  holds after any number of such uploads in a row, that is until an upload succeeds.
\<close>

theorem failed_upload_keeps_result_set:
  "(fst (upload env req st) \<noteq> Redirect ''/results'' \<longrightarrow>
      results_data (snd (upload env req st)) = results_data st \<and>
      results (snd (upload env req st)) = results st \<and>
      dashboard (snd (upload env req st)) = dashboard st) \<and>
   (all_failed us st \<longrightarrow>
      results_data (run_uploads us st) = results_data st \<and>
      results (run_uploads us st) = results st \<and>
      dashboard (run_uploads us st) = dashboard st)"
  using upload_failure [of env req st] all_failed_keeps_results_data [of us st]
    pages_depend_on_results_data by blast

theorem failed_upload_keeps_result_set_witness:
  "fst (upload env_no_vendor demo_request previous_results) \<noteq> Redirect ''/results'' \<and>
   all_failed [(env_no_vendor, demo_request), (env_unreadable, demo_request)] previous_results \<and>
   results_data previous_results \<noteq> [] \<and>
   results_data (snd (upload env_no_vendor demo_request previous_results)) = results_data previous_results \<and>
   results_data (run_uploads [(env_no_vendor, demo_request), (env_unreadable, demo_request)] previous_results)
     = results_data previous_results \<and>
   results (run_uploads [(env_no_vendor, demo_request), (env_unreadable, demo_request)] previous_results)
     = results previous_results"
proof -
  have a: "fst (upload env_no_vendor demo_request previous_results) \<noteq> Redirect ''/results''"
    by (simp add: upload_no_vendor)
  have b: "all_failed [(env_no_vendor, demo_request), (env_unreadable, demo_request)] previous_results"
    by (simp add: upload_no_vendor upload_unreadable)
  have c: "results_data previous_results \<noteq> []"
    by (simp add: previous_results_def result_set_def)
  show ?thesis
    using a b c
      failed_upload_keeps_result_set [of env_no_vendor demo_request previous_results
        "[(env_no_vendor, demo_request), (env_unreadable, demo_request)]"]
    by blast
qed

section \<open>Successful uploads\<close>

lemma getitem_length: "getitem c df = Inr vs \<Longrightarrow> length vs = length (rows df)"
  by (auto simp: getitem_def split: if_splits)

lemmas normalise_defs = normalise_col_def strip_def lower_def lower_char_def upper_letters_def
  lower_letters_def replace_blank_def is_space_def

lemma stage_load_demo: "stage_load demo_env b = Next (demo_table, ''<table>'')"
  by (simp add: stage_load_def demo_env_def demo_frame_def demo_table_def Let_def normalise_defs
      expected_cols_def canonical_cols_def getitem_list_def positions_def set_columns_def)

lemma cleaned_demo:
  "cleaned demo_env demo_table =
     \<lparr>columns = canonical_cols,
      rows = [[Ts 1577836800000000000, Str ''B'', Str ''v1'', Num 10],
              [Ts 1577836800000000000, Str ''A'', Str ''v2'', Num 99]]\<rparr>"
  by (simp add: cleaned_def spec_dropped_def with_parsed_date_def coerce_cell_def demo_env_def
      demo_table_def isnull_def)

lemma upload_demo_succeeds: "fst (upload demo_env demo_request st) = Redirect ''/results''"
proof (rule upload_succeeds [where X = "[]" and labels = "[1, - 1]" and ?df0.0 = demo_table])
  show "filename demo_request \<noteq> []" by (simp add: demo_request_def)
  show "stage_load demo_env (content demo_request) = Next (demo_table, ''<table>'')"
    by (rule stage_load_demo)
qed (simp_all add: demo_env_def [unfolded demo_frame_def] cleaned_demo [unfolded demo_env_def demo_frame_def])

text \<open>
  Claim C1, as amended. After an upload that reaches the redirect, \<open>total_transactions\<close>
  is the number of rows of the table that cleaning returns, \<open>fraud_count\<close> is the
  number of cells of the \<open>Anomaly\<close> column that are \<open>-1\<close>, and
  \<open>fraud_percentage\<close> is \<open>round((fraud_count / total_transactions) * 100, 2)\<close> in
  floating point arithmetic: the quotient is rounded, then its product with 100, then
  the result is rounded to two decimals.
\<close>

theorem result_set_counters:
  assumes "fst (upload env req st) = Redirect ''/results''"
  shows "\<exists>df0 h df1 info sc flags.
    stage_load env (content req) = Next (df0, h) \<and>
    stage_clean env df0 = Inr (df1, info) \<and>
    bind_exn (stage_features env df1) (stage_model env) = Inr sc \<and>
    getitem ''Anomaly'' sc = Inr flags \<and>
    length flags = length (rows df1) \<and> rows df1 \<noteq> [] \<and>
    map_of (results_data (snd (upload env req st))) ''total_transactions''
      = Some (PyInt (int (length (rows df1)))) \<and>
    map_of (results_data (snd (upload env req st))) ''fraud_count''
      = Some (PyInt (int (length (filter is_anomaly flags)))) \<and>
    map_of (results_data (snd (upload env req st))) ''fraud_percentage''
      = Some (PyFloat (py_round2 (float_mul
          (float_round (of_int (int (length (filter is_anomaly flags))) / of_int (int (length (rows df1)))))
          100)))"
proof -
  from upload_success_closed [OF assms] obtain df0 h labels pct F X info eda where
    l: "stage_load env (content req) = Next (df0, h)" and
    cl: "stage_clean env df0 = Inr (cleaned env df0, info)" and
    fe: "stage_features env (cleaned env df0) = Inr (features env (cleaned env df0))" and
    mo: "stage_model env (features env (cleaned env df0)) = Inr (scored labels (features env (cleaned env df0)))" and
    an: "getitem ''Anomaly'' (scored labels (features env (cleaned env df0))) = Inr (map (\<lambda>l. Num (of_int l)) labels)" and
    len: "length labels = length (rows (cleaned env df0))" and
    fp: "fraud_percentage (int (length (filter (\<lambda>l. l = - 1) labels)))
      (int (length (rows (cleaned env df0)))) = Inr pct" and
    rd: "results_data (snd (upload env req st)) =
      dict_update (results_data st)
        (result_set h info eda
           (to_html env ''table table-striped'' (flagged labels (features env (cleaned env df0))))
           (int (length (filter (\<lambda>l. l = - 1) labels))) (int (length (rows (cleaned env df0)))) pct)"
    by blast
  let ?flags = "map (\<lambda>l. Num (of_int l)) labels"
  have cnt: "filter (is_anomaly \<circ> (\<lambda>l. Num (of_int l))) labels = filter (\<lambda>l. l = - 1) labels"
    by (simp add: comp_def)
  from fp have nz: "rows (cleaned env df0) \<noteq> []"
    and pct: "pct = py_round2 (float_mul (float_round (of_int (int (length (filter (\<lambda>l. l = - 1) labels)))
        / of_int (int (length (rows (cleaned env df0)))))) 100)"
    by (simp_all add: fraud_percentage_Inr)
  have "stage_load env (content req) = Next (df0, h) \<and>
    stage_clean env df0 = Inr (cleaned env df0, info) \<and>
    bind_exn (stage_features env (cleaned env df0)) (stage_model env)
      = Inr (scored labels (features env (cleaned env df0))) \<and>
    getitem ''Anomaly'' (scored labels (features env (cleaned env df0))) = Inr ?flags \<and>
    length ?flags = length (rows (cleaned env df0)) \<and> rows (cleaned env df0) \<noteq> [] \<and>
    map_of (results_data (snd (upload env req st))) ''total_transactions''
      = Some (PyInt (int (length (rows (cleaned env df0))))) \<and>
    map_of (results_data (snd (upload env req st))) ''fraud_count''
      = Some (PyInt (int (length (filter is_anomaly ?flags)))) \<and>
    map_of (results_data (snd (upload env req st))) ''fraud_percentage''
      = Some (PyFloat (py_round2 (float_mul
          (float_round (of_int (int (length (filter is_anomaly ?flags))) / of_int (int (length (rows (cleaned env df0))))))
          100)))"
    using l cl an nz len by (simp add: fe mo rd map_of_result_set filter_map cnt pct)
  then show ?thesis by blast
qed


lemma upload_counters:
  assumes n: "filename req \<noteq> []"
    and sv: "save env (path_join ''upload'' (filename req)) (content req) = None"
    and l: "stage_load env (content req) = Next (df0, h)"
    and sf: "\<And>p f. savefig env p f = None"
    and csv: "\<And>p f. to_csv env p f = None"
    and ft: "\<And>F. fit_transform env F = Inr X"
    and fo: "isolation_forest env 100 (float_round (2 / 100)) (seeded_rng env 42) X = Inr labels"
    and len: "length labels = length (rows (cleaned env df0))"
    and nz: "rows (cleaned env df0) \<noteq> []"
  shows "fst (upload env req st) = Redirect ''/results'' \<and>
    map_of (results_data (snd (upload env req st))) ''total_transactions''
      = Some (PyInt (int (length (rows (cleaned env df0))))) \<and>
    map_of (results_data (snd (upload env req st))) ''fraud_count''
      = Some (PyInt (int (length (filter (\<lambda>l. l = - 1) labels)))) \<and>
    (\<exists>pct. fraud_percentage (int (length (filter (\<lambda>l. l = - 1) labels)))
          (int (length (rows (cleaned env df0)))) = Inr pct \<and>
       map_of (results_data (snd (upload env req st))) ''fraud_percentage'' = Some (PyFloat pct)) \<and>
    result_folder (snd (upload env req st)) ''fraud_report.csv''
      = Some (flagged labels (features env (cleaned env df0)))"
proof -
  have s: "fst (upload env req st) = Redirect ''/results''"
    using n sv l sf csv ft fo len nz by (rule upload_succeeds)
  from upload_success_closed [OF s] obtain df0' h' labels' pct F X' info eda where
    l': "stage_load env (content req) = Next (df0', h')" and
    ft': "fit_transform env F = Inr X'" and
    fo': "isolation_forest env 100 (float_round (2 / 100)) (seeded_rng env 42) X' = Inr labels'" and
    fp: "fraud_percentage (int (length (filter (\<lambda>l. l = - 1) labels')))
      (int (length (rows (cleaned env df0')))) = Inr pct" and
    rd: "results_data (snd (upload env req st)) =
      dict_update (results_data st)
        (result_set h' info eda
           (to_html env ''table table-striped'' (flagged labels' (features env (cleaned env df0'))))
           (int (length (filter (\<lambda>l. l = - 1) labels'))) (int (length (rows (cleaned env df0')))) pct)" and
    rf: "result_folder (snd (upload env req st)) =
      (result_folder st)(''fraud_report.csv'' \<mapsto> flagged labels' (features env (cleaned env df0')))"
    by blast
  have d: "df0' = df0" using l l' by simp
  have x: "X' = X" using ft ft' by simp
  have lb: "labels' = labels" using fo fo' by (simp only: x) simp
  have a: "map_of (results_data (snd (upload env req st))) ''total_transactions''
      = Some (PyInt (int (length (rows (cleaned env df0)))))"
    unfolding rd d by (rule map_of_result_set)
  have b: "map_of (results_data (snd (upload env req st))) ''fraud_count''
      = Some (PyInt (int (length (filter (\<lambda>l. l = - 1) labels))))"
    unfolding rd lb by (rule map_of_result_set)
  have c: "map_of (results_data (snd (upload env req st))) ''fraud_percentage'' = Some (PyFloat pct)"
    unfolding rd by (rule map_of_result_set)
  have e: "result_folder (snd (upload env req st)) ''fraud_report.csv''
      = Some (flagged labels (features env (cleaned env df0)))"
    unfolding rf d lb by simp
  from fp have fp': "fraud_percentage (int (length (filter (\<lambda>l. l = - 1) labels)))
          (int (length (rows (cleaned env df0)))) = Inr pct"
    unfolding d lb .
  show ?thesis using s a b c e fp' by blast
qed


lemma percentage_1_2: "py_round2 (float_mul (float_round (1 / 2)) 100) = 50"
  by code_simp

lemma fraud_percentage_1_2: "fraud_percentage 1 2 = Inr 50"
  by (simp add: fraud_percentage_def int_truediv_def percentage_1_2)

lemma demo_env_simps:
  "savefig demo_env p f = None" "to_csv demo_env p df = None"
  "fit_transform demo_env F = Inr []"
  "isolation_forest demo_env n c g X = Inr [1, - 1]"
  by (simp_all add: demo_env_def)

lemma upload_demo_counters:
  "map_of (results_data (snd (upload demo_env demo_request st))) ''total_transactions'' = Some (PyInt 2) \<and>
   map_of (results_data (snd (upload demo_env demo_request st))) ''fraud_count'' = Some (PyInt 1) \<and>
   map_of (results_data (snd (upload demo_env demo_request st))) ''fraud_percentage'' = Some (PyFloat 50)"
proof -
  have n: "filename demo_request \<noteq> []" by (simp add: demo_request_def)
  have l: "stage_load demo_env (content demo_request) = Next (demo_table, ''<table>'')"
    by (rule stage_load_demo)
  have len: "length [1, - 1 :: int] = length (rows (cleaned demo_env demo_table))"
    by (simp add: cleaned_demo)
  have nz: "rows (cleaned demo_env demo_table) \<noteq> []"
    by (simp add: cleaned_demo)
  have tt: "int (length (rows (cleaned demo_env demo_table))) = 2" by (simp add: cleaned_demo)
  have fc: "int (length (filter (\<lambda>l. l = - 1) [1, - 1 :: int])) = 1" by simp
  from upload_counters [OF n demo_saves(1) l demo_env_simps(1) demo_env_simps(2) demo_env_simps(3) demo_env_simps(4) len nz, of st]
  show ?thesis unfolding tt fc fraud_percentage_1_2 by auto
qed

lemma demo_table_shape: "columns demo_table = canonical_cols" "rectangular demo_table"
  by (simp_all add: demo_table_def rectangular_def canonical_cols_def)

theorem result_set_counters_witness:
  "fst (upload demo_env demo_request startup) = Redirect ''/results'' \<and>
   length (rows demo_table) = 4 \<and>
   map_of (results_data (snd (upload demo_env demo_request startup))) ''total_transactions'' = Some (PyInt 2) \<and>
   map_of (results_data (snd (upload demo_env demo_request startup))) ''fraud_count'' = Some (PyInt 1) \<and>
   map_of (results_data (snd (upload demo_env demo_request startup))) ''fraud_percentage'' = Some (PyFloat 50)"
proof -
  have s: "fst (upload demo_env demo_request startup) = Redirect ''/results''"
    by (rule upload_demo_succeeds)
  from result_set_counters [OF s] obtain df0 h df1 info where
    l: "stage_load demo_env (content demo_request) = Next (df0, h)" and
    cl: "stage_clean demo_env df0 = Inr (df1, info)" and
    tt: "map_of (results_data (snd (upload demo_env demo_request startup))) ''total_transactions''
      = Some (PyInt (int (length (rows df1))))"
    by blast
  have d0: "df0 = demo_table" using l by (simp add: stage_load_demo)
  have d1: "df1 = cleaned demo_env demo_table"
    using cl stage_clean_eq [OF demo_table_shape, of demo_env] by (simp add: d0)
  have "map_of (results_data (snd (upload demo_env demo_request startup))) ''total_transactions''
      = Some (PyInt 2)"
    using tt by (simp add: d1 cleaned_demo)
  then show ?thesis
    using s upload_demo_counters [of startup] by (simp add: demo_table_def)
qed

lemma stage_load_rounding:
  "stage_load rounding_env b =
     Next (\<lparr>columns = canonical_cols,
            rows = replicate 3989 [Str ''2024-01-01'', Str ''Police'', Str ''Acme'', Num 10]
                   @ replicate 11 [Str ''2024-01-01'', Str ''Police'', Str ''Acme'', Num 1000000]\<rparr>,
           ''<table>'')"
  by (simp add: stage_load_def rounding_env_def demo_env_def rounding_frame_def Let_def normalise_defs
      expected_cols_def canonical_cols_def getitem_list_def positions_def set_columns_def)

lemma cleaned_rounding:
  "rows (cleaned rounding_env
     \<lparr>columns = canonical_cols,
      rows = replicate 3989 [Str ''2024-01-01'', Str ''Police'', Str ''Acme'', Num 10]
             @ replicate 11 [Str ''2024-01-01'', Str ''Police'', Str ''Acme'', Num 1000000]\<rparr>)
   = replicate 3989 [Ts 1577836800000000000, Str ''Police'', Str ''Acme'', Num 10]
     @ replicate 11 [Ts 1577836800000000000, Str ''Police'', Str ''Acme'', Num 1000000]"
  by (simp add: cleaned_def spec_dropped_def with_parsed_date_def coerce_cell_def rounding_env_def
      demo_env_def isnull_def)

lemma rounding_env_simps:
  "savefig rounding_env p f = None" "to_csv rounding_env p df = None"
  "fit_transform rounding_env F = Inr []"
  "isolation_forest rounding_env n c g X = Inr (replicate 3989 1 @ replicate 11 (- 1))"
  by (simp_all add: rounding_env_def demo_env_def)

lemma double_027: "py_round2 (float_mul (float_round (11 / 4000)) 100) = 607985949695017 / 2251799813685248"
  by code_simp

lemma double_028: "py_round2 (float_round (11 / 40)) = 1261007895663739 / 4503599627370496"
  by code_simp

lemma fraud_percentage_11_4000: "fraud_percentage 11 4000 = Inr (607985949695017 / 2251799813685248)"
  by (simp add: fraud_percentage_def int_truediv_def double_027)

lemma spec_percentage_11_4000: "spec_percentage 11 4000 = Inr (1261007895663739 / 4503599627370496)"
  by (simp add: spec_percentage_def int_truediv_def double_028)

text \<open>
  Claim C1 as stated fails. On the upload of 4000 rows with 11 flagged rows the handler
  stores the float 0.27, since \<open>(11 / 4000) * 100\<close> is 0.27499999999999997 in floating
  point, while \<open>round(100 * 11 / 4000, 2)\<close> is the float 0.28. The two fractions
  below are these floats. The exact percentage is 0.275, which also rounds to 0.28.
\<close>

theorem result_set_counters_counterexample:
  "fst (upload rounding_env demo_request startup) = Redirect ''/results'' \<and>
   map_of (results_data (snd (upload rounding_env demo_request startup))) ''total_transactions''
     = Some (PyInt 4000) \<and>
   map_of (results_data (snd (upload rounding_env demo_request startup))) ''fraud_count''
     = Some (PyInt 11) \<and>
   map_of (results_data (snd (upload rounding_env demo_request startup))) ''fraud_percentage''
     = Some (PyFloat (607985949695017 / 2251799813685248)) \<and>
   spec_percentage 11 4000 = Inr (1261007895663739 / 4503599627370496) \<and>
   (607985949695017 / 2251799813685248 :: rat) \<noteq> 1261007895663739 / 4503599627370496 \<and>
   round_half_even (100 * (607985949695017 / 2251799813685248)) = 27 \<and>
   round_half_even (100 * (100 * 11 / 4000)) = 28"
proof -
  have e1: "round_half_even (100 * (607985949695017 / 2251799813685248)) = 27"
    by code_simp
  have e2: "round_half_even (100 * (100 * 11 / 4000)) = 28"
    by code_simp
  let ?t = "\<lparr>columns = canonical_cols,
      rows = replicate 3989 [Str ''2024-01-01'', Str ''Police'', Str ''Acme'', Num 10]
             @ replicate 11 [Str ''2024-01-01'', Str ''Police'', Str ''Acme'', Num 1000000]\<rparr>"
  let ?labels = "replicate 3989 (1 :: int) @ replicate 11 (- 1)"
  have n: "filename demo_request \<noteq> []" by (simp add: demo_request_def)
  have l: "stage_load rounding_env (content demo_request) = Next (?t, ''<table>'')"
    by (rule stage_load_rounding)
  have len: "length ?labels = length (rows (cleaned rounding_env ?t))"
    by (simp add: cleaned_rounding)
  have nz: "rows (cleaned rounding_env ?t) \<noteq> []"
    by (simp add: cleaned_rounding)
  have tt: "int (length (rows (cleaned rounding_env ?t))) = 4000" by (simp add: cleaned_rounding)
  have fc: "int (length (filter (\<lambda>l. l = - 1) ?labels)) = 11" by simp
  from upload_counters [OF n demo_saves(4) l rounding_env_simps(1) rounding_env_simps(2) rounding_env_simps(3)
      rounding_env_simps(4) len nz, of startup]
  have "fst (upload rounding_env demo_request startup) = Redirect ''/results'' \<and>
   map_of (results_data (snd (upload rounding_env demo_request startup))) ''total_transactions''
     = Some (PyInt 4000) \<and>
   map_of (results_data (snd (upload rounding_env demo_request startup))) ''fraud_count''
     = Some (PyInt 11) \<and>
   map_of (results_data (snd (upload rounding_env demo_request startup))) ''fraud_percentage''
     = Some (PyFloat (607985949695017 / 2251799813685248)) \<and>
   spec_percentage 11 4000 = Inr (1261007895663739 / 4503599627370496) \<and>
   (607985949695017 / 2251799813685248 :: rat) \<noteq> 1261007895663739 / 4503599627370496"
    unfolding tt fc fraud_percentage_11_4000 spec_percentage_11_4000 by auto
  then show ?thesis using e1 e2 by (intro conjI) blast+
qed

lemma mask_is_filter:
  assumes "\<And>l. Q (f l) = P l"
  shows "list_all (\<lambda>r. length r = n) xs \<Longrightarrow> length ls = length xs \<Longrightarrow>
    map fst (filter snd (zip (map2 (\<lambda>r v. r @ [v]) xs (map f ls)) (map P ls)))
      = filter (\<lambda>r. Q (r ! n)) (map2 (\<lambda>r v. r @ [v]) xs (map f ls))"
proof (induction xs arbitrary: ls)
  case Nil
  then show ?case by simp
next
  case (Cons x xs)
  then obtain l ls' where ls: "ls = l # ls'" by (cases ls) auto
  from Cons.prems have "list_all (\<lambda>r. length r = n) xs" "length ls' = length xs" "length x = n"
    by (simp_all add: ls)
  then show ?case using Cons.IH [of ls'] assms by (simp add: ls nth_append)
qed

lemma rows_flagged_filter:
  assumes r: "rectangular df" and len: "length labels = length (rows df)"
  shows "rows (flagged labels df)
     = filter (\<lambda>r. is_anomaly (r ! length (columns df))) (rows (scored labels df))"
proof -
  have "map fst (filter snd (zip (map2 (\<lambda>r v. r @ [v]) (rows df) (map (\<lambda>l. Num (of_int l)) labels))
          (map (\<lambda>l. l = - 1) labels)))
      = filter (\<lambda>r. is_anomaly (r ! length (columns df)))
          (map2 (\<lambda>r v. r @ [v]) (rows df) (map (\<lambda>l. Num (of_int l)) labels))"
    using r len by (intro mask_is_filter) (simp_all add: rectangular_def)
  then show ?thesis by (simp add: flagged_def getitem_mask_def scored_def add_column_def)
qed

lemma report_cols_eq:
  "canonical_cols @ [''Month'', ''DayOfWeek'', ''AGENCY_CODE'', ''MERCHANT_CODE''] @ [''Anomaly''] = report_cols"
  by (simp add: canonical_cols_def report_cols_def)

text \<open>
  Claim C8. A successful upload writes the table of the flagged rows under the fixed
  name \<open>fraud_report.csv\<close> of the result folder, replacing what was there, and this is
  the file that the download page sends. Its header is the nine columns in the order
  \<open>TRANSACTION_DATE\<close>, \<open>AGENCY_NAME\<close>, \<open>MERCHANT_NAME\<close>, \<open>TRANSACTION_AMOUNT\<close>,
  \<open>Month\<close>, \<open>DayOfWeek\<close>, \<open>AGENCY_CODE\<close>, \<open>MERCHANT_CODE\<close>, \<open>Anomaly\<close>; every
  data row has nine cells; the data rows are the rows of the scored table whose
  \<open>Anomaly\<close> cell is \<open>-1\<close>, in their order; and there are \<open>fraud_count\<close> of them.
\<close>

theorem fraud_report_csv:
  assumes "fst (upload env req st) = Redirect ''/results''"
  shows "\<exists>report df0 h df1 info sc.
    result_folder (snd (upload env req st)) = (result_folder st)(''fraud_report.csv'' \<mapsto> report) \<and>
    download (snd (upload env req st)) = Some report \<and>
    columns report = report_cols \<and>
    list_all (\<lambda>r. length r = 9) (rows report) \<and>
    stage_load env (content req) = Next (df0, h) \<and>
    stage_clean env df0 = Inr (df1, info) \<and>
    bind_exn (stage_features env df1) (stage_model env) = Inr sc \<and>
    columns sc = report_cols \<and>
    rows report = filter (\<lambda>r. r ! 8 = Num (- 1)) (rows sc) \<and>
    map_of (results_data (snd (upload env req st))) ''fraud_count''
      = Some (PyInt (int (length (rows report))))"
proof -
  from upload_success_closed [OF assms] obtain df0 h labels pct F X info eda where
    l: "stage_load env (content req) = Next (df0, h)" and
    c0: "columns df0 = canonical_cols" and r0: "rectangular df0" and
    cl: "stage_clean env df0 = Inr (cleaned env df0, info)" and
    fe: "stage_features env (cleaned env df0) = Inr (features env (cleaned env df0))" and
    mo: "stage_model env (features env (cleaned env df0)) = Inr (scored labels (features env (cleaned env df0)))" and
    len: "length labels = length (rows (cleaned env df0))" and
    rd: "results_data (snd (upload env req st)) =
      dict_update (results_data st)
        (result_set h info eda
           (to_html env ''table table-striped'' (flagged labels (features env (cleaned env df0))))
           (int (length (filter (\<lambda>l. l = - 1) labels))) (int (length (rows (cleaned env df0)))) pct)" and
    rf: "result_folder (snd (upload env req st)) =
      (result_folder st)(''fraud_report.csv'' \<mapsto> flagged labels (features env (cleaned env df0)))"
    by blast
  let ?df2 = "features env (cleaned env df0)"
  let ?report = "flagged labels ?df2"
  have r2: "rectangular ?df2"
    using r0 by (intro rectangular_features rectangular_cleaned)
  have len2: "length labels = length (rows ?df2)" using len by simp
  have c2: "length (columns ?df2) = 8" by (simp add: c0 canonical_cols_def)
  have cols: "columns ?report = report_cols" "columns (scored labels ?df2) = report_cols"
    using report_cols_eq by (simp_all add: c0)
  have rect: "list_all (\<lambda>r. length r = 9) (rows ?report)"
    using rectangular_flagged [OF r2, of labels]
    by (simp add: rectangular_def c0 canonical_cols_def eval_nat_numeral)
  have rows: "rows ?report = filter (\<lambda>r. r ! 8 = Num (- 1)) (rows (scored labels ?df2))"
    using rows_flagged_filter [OF r2 len2] by (simp only: c2 is_anomaly_def)
  have cnt: "map_of (results_data (snd (upload env req st))) ''fraud_count''
      = Some (PyInt (int (length (rows ?report))))"
    by (simp add: rd map_of_result_set length_rows_flagged [OF len2])
  have dl: "download (snd (upload env req st)) = Some ?report"
    by (simp add: download_def rf)
  have sc: "bind_exn (stage_features env (cleaned env df0)) (stage_model env) = Inr (scored labels ?df2)"
    by (simp add: fe mo)
  show ?thesis
    using rf dl cols rect l cl sc rows cnt by blast
qed

lemma cat_codes_demo:
  "cat_codes [Str ''B'', Str ''A''] = [1, 0]" "cat_codes [Str ''v1'', Str ''v2''] = [0, 1]"
  by code_simp+

lemma features_demo:
  "features demo_env (cleaned demo_env demo_table) =
     \<lparr>columns = canonical_cols @ [''Month'', ''DayOfWeek'', ''AGENCY_CODE'', ''MERCHANT_CODE''],
      rows = [[Ts 1577836800000000000, Str ''B'', Str ''v1'', Num 10, Num 1, Num 2, Num 1, Num 0],
              [Ts 1577836800000000000, Str ''A'', Str ''v2'', Num 99, Num 1, Num 2, Num 0, Num 1]]\<rparr>"
  unfolding cleaned_demo
  by (simp add: features_def add_column_def column_def canonical_cols_def code_cells_def
      cat_codes_demo dt_field_def demo_env_def)

lemma report_demo:
  "flagged [1, - 1] (features demo_env (cleaned demo_env demo_table)) =
     \<lparr>columns = report_cols,
      rows = [[Ts 1577836800000000000, Str ''A'', Str ''v2'', Num 99, Num 1, Num 2, Num 0, Num 1, Num (- 1)]]\<rparr>"
  unfolding features_demo
  by (simp add: flagged_def scored_def add_column_def getitem_mask_def
      canonical_cols_def report_cols_def)

theorem fraud_report_csv_witness:
  "fst (upload demo_env demo_request startup) = Redirect ''/results'' \<and>
   map_of (results_data (snd (upload demo_env demo_request startup))) ''fraud_count'' = Some (PyInt 1) \<and>
   download (snd (upload demo_env demo_request startup)) =
     Some \<lparr>columns = report_cols,
           rows = [[Ts 1577836800000000000, Str ''A'', Str ''v2'', Num 99, Num 1, Num 2, Num 0, Num 1,
                    Num (- 1)]]\<rparr>"
proof -
  have s: "fst (upload demo_env demo_request startup) = Redirect ''/results''"
    by (rule upload_demo_succeeds)
  from fraud_report_csv [OF s] obtain report where
    dl: "download (snd (upload demo_env demo_request startup)) = Some report" and
    rf: "result_folder (snd (upload demo_env demo_request startup))
      = (result_folder startup)(''fraud_report.csv'' \<mapsto> report)" and
    fc: "map_of (results_data (snd (upload demo_env demo_request startup))) ''fraud_count''
      = Some (PyInt (int (length (rows report))))"
    by blast
  have n: "filename demo_request \<noteq> []" by (simp add: demo_request_def)
  have l: "stage_load demo_env (content demo_request) = Next (demo_table, ''<table>'')"
    by (rule stage_load_demo)
  have len: "length [1, - 1 :: int] = length (rows (cleaned demo_env demo_table))"
    by (simp add: cleaned_demo)
  have nz: "rows (cleaned demo_env demo_table) \<noteq> []"
    by (simp add: cleaned_demo)
  from upload_counters [OF n demo_saves(1) l demo_env_simps(1) demo_env_simps(2) demo_env_simps(3) demo_env_simps(4) len nz, of startup]
  have "result_folder (snd (upload demo_env demo_request startup)) ''fraud_report.csv''
      = Some (flagged [1, - 1] (features demo_env (cleaned demo_env demo_table)))"
    by blast
  then have "report = flagged [1, - 1] (features demo_env (cleaned demo_env demo_table))"
    by (simp add: rf)
  then show ?thesis using s dl fc by (simp add: report_demo)
qed

lemma with_parsed_date_kept:
  assumes "\<not> spec_dropped env df r" "r \<noteq> []"
  shows "\<exists>t. with_parsed_date env df r ! 0 = Ts t"
  using assms
  by (cases r) (auto simp: spec_dropped_def with_parsed_date_def coerce_cell_def)

lemma drop1_with_parsed_date [simp]: "drop (Suc 0) (with_parsed_date env df r) = drop (Suc 0) r"
  by (cases r) (simp_all add: with_parsed_date_def)

text \<open>
  Claim C7. On the four column table that ingestion returns, cleaning succeeds and
  returns, in their original order, exactly the rows that hold no null and whose date
  the permissive parser accepts (the parser sees the date column left by the first
  \<open>dropna\<close>); in a row that stays only the date cell changes, to the parsed
  timestamp. Hence, after a successful upload, \<open>total_transactions\<close> counts these rows
  only, and the first four cells of the rows of the report are a subsequence of them:
  a row whose date does not parse is neither counted nor reported.
\<close>

theorem cleaning_drops_exactly:
  assumes "stage_load env (content req) = Next (df0, h)"
  shows "(\<exists>df1 info. stage_clean env df0 = Inr (df1, info) \<and>
            rows df1 = map (with_parsed_date env df0) (filter (\<lambda>r. \<not> spec_dropped env df0 r) (rows df0)) \<and>
            map (drop 1) (rows df1) = map (drop 1) (filter (\<lambda>r. \<not> spec_dropped env df0 r) (rows df0)) \<and>
            list_all (\<lambda>r. \<exists>t. r ! 0 = Ts t) (rows df1)) \<and>
         (fst (upload env req st) = Redirect ''/results'' \<longrightarrow>
            map_of (results_data (snd (upload env req st))) ''total_transactions''
              = Some (PyInt (int (length (filter (\<lambda>r. \<not> spec_dropped env df0 r) (rows df0))))) \<and>
            (\<exists>report. download (snd (upload env req st)) = Some report \<and>
               subseq (map (take 4) (rows report))
                 (map (with_parsed_date env df0) (filter (\<lambda>r. \<not> spec_dropped env df0 r) (rows df0)))))"
proof
  have c0: "columns df0 = canonical_cols" using stage_load_Next [OF assms] by (rule conjunct1)
  have r0: "rectangular df0" using stage_load_Next [OF assms] by (rule conjunct2)
  have ne: "\<And>r. r \<in> set (rows df0) \<Longrightarrow> r \<noteq> []"
    using r0 by (auto simp: rectangular_def list_all_iff c0 canonical_cols_def)
  have a: "rows (cleaned env df0)
      = map (with_parsed_date env df0) (filter (\<lambda>r. \<not> spec_dropped env df0 r) (rows df0))"
    by (simp add: cleaned_def)
  have b: "map (drop 1) (rows (cleaned env df0))
      = map (drop 1) (filter (\<lambda>r. \<not> spec_dropped env df0 r) (rows df0))"
    by (simp add: cleaned_def comp_def)
  have c: "list_all (\<lambda>r. \<exists>t. r ! 0 = Ts t) (rows (cleaned env df0))"
    using ne by (auto simp: cleaned_def list_all_iff intro: with_parsed_date_kept)
  show "\<exists>df1 info. stage_clean env df0 = Inr (df1, info) \<and>
            rows df1 = map (with_parsed_date env df0) (filter (\<lambda>r. \<not> spec_dropped env df0 r) (rows df0)) \<and>
            map (drop 1) (rows df1) = map (drop 1) (filter (\<lambda>r. \<not> spec_dropped env df0 r) (rows df0)) \<and>
            list_all (\<lambda>r. \<exists>t. r ! 0 = Ts t) (rows df1)"
    using stage_clean_eq [OF c0 r0, of env] a b c by blast
  show "fst (upload env req st) = Redirect ''/results'' \<longrightarrow>
            map_of (results_data (snd (upload env req st))) ''total_transactions''
              = Some (PyInt (int (length (filter (\<lambda>r. \<not> spec_dropped env df0 r) (rows df0))))) \<and>
            (\<exists>report. download (snd (upload env req st)) = Some report \<and>
               subseq (map (take 4) (rows report))
                 (map (with_parsed_date env df0) (filter (\<lambda>r. \<not> spec_dropped env df0 r) (rows df0))))"
  proof
    assume s: "fst (upload env req st) = Redirect ''/results''"
    from upload_success_closed [OF s] obtain df0' h' labels pct info eda where
      l': "stage_load env (content req) = Next (df0', h')" and
      len: "length labels = length (rows (cleaned env df0'))" and
      rd: "results_data (snd (upload env req st)) =
        dict_update (results_data st)
          (result_set h' info eda
             (to_html env ''table table-striped'' (flagged labels (features env (cleaned env df0'))))
             (int (length (filter (\<lambda>l. l = - 1) labels))) (int (length (rows (cleaned env df0')))) pct)" and
      rf: "result_folder (snd (upload env req st)) =
        (result_folder st)(''fraud_report.csv'' \<mapsto> flagged labels (features env (cleaned env df0')))"
      by blast
    have d: "df0' = df0" using assms l' by simp
    let ?df1 = "cleaned env df0"
    let ?df2 = "features env ?df1"
    have c1: "columns ?df1 = canonical_cols" by (simp add: c0)
    have r1: "rectangular ?df1" using r0 by (rule rectangular_cleaned)
    have c2: "columns ?df2 = canonical_cols @ [''Month'', ''DayOfWeek'', ''AGENCY_CODE'', ''MERCHANT_CODE'']"
      by (simp add: c0)
    have r2: "rectangular ?df2" using r1 by (rule rectangular_features)
    have len2: "length labels = length (rows ?df2)" using len by (simp add: d)
    have tt: "map_of (results_data (snd (upload env req st))) ''total_transactions''
        = Some (PyInt (int (length (filter (\<lambda>r. \<not> spec_dropped env df0 r) (rows df0)))))"
      by (simp add: rd map_of_result_set d cleaned_def)
    have dl: "download (snd (upload env req st)) = Some (flagged labels ?df2)"
      by (simp add: download_def rf d)
    have "subseq (map (take 4) (rows (flagged labels ?df2))) (map (take 4) (rows (scored labels ?df2)))"
      using rows_flagged_subseq by (rule subseq_map)
    also have "map (take 4) (rows (scored labels ?df2)) = map (take 4) (rows ?df2)"
      using c2 r2 len2 by (rule take4_scored)
    also have "\<dots> = rows ?df1" using c1 r1 by (rule take4_features)
    finally have "subseq (map (take 4) (rows (flagged labels ?df2)))
        (map (with_parsed_date env df0) (filter (\<lambda>r. \<not> spec_dropped env df0 r) (rows df0)))"
      by (simp only: a)
    then show "map_of (results_data (snd (upload env req st))) ''total_transactions''
              = Some (PyInt (int (length (filter (\<lambda>r. \<not> spec_dropped env df0 r) (rows df0))))) \<and>
            (\<exists>report. download (snd (upload env req st)) = Some report \<and>
               subseq (map (take 4) (rows report))
                 (map (with_parsed_date env df0) (filter (\<lambda>r. \<not> spec_dropped env df0 r) (rows df0))))"
      using tt dl by blast
  qed
qed

lemma spec_dropped_demo:
  "map (spec_dropped demo_env demo_table) (rows demo_table) = [False, True, False, True]"
  by (simp add: spec_dropped_def demo_env_def demo_table_def isnull_def)

theorem cleaning_drops_exactly_witness:
  "stage_load demo_env (content demo_request) = Next (demo_table, ''<table>'') \<and>
   fst (upload demo_env demo_request startup) = Redirect ''/results'' \<and>
   map (spec_dropped demo_env demo_table) (rows demo_table) = [False, True, False, True] \<and>
   (\<exists>df1 info. stage_clean demo_env demo_table = Inr (df1, info) \<and>
      rows df1 = [[Ts 1577836800000000000, Str ''B'', Str ''v1'', Num 10],
                  [Ts 1577836800000000000, Str ''A'', Str ''v2'', Num 99]]) \<and>
   map_of (results_data (snd (upload demo_env demo_request startup))) ''total_transactions''
     = Some (PyInt 2) \<and>
   (\<exists>report. download (snd (upload demo_env demo_request startup)) = Some report \<and>
      subseq (map (take 4) (rows report))
        [[Ts 1577836800000000000, Str ''B'', Str ''v1'', Num 10],
         [Ts 1577836800000000000, Str ''A'', Str ''v2'', Num 99]])"
proof -
  have l: "stage_load demo_env (content demo_request) = Next (demo_table, ''<table>'')"
    by (rule stage_load_demo)
  have s: "fst (upload demo_env demo_request startup) = Redirect ''/results''"
    by (rule upload_demo_succeeds)
  have k: "map (with_parsed_date demo_env demo_table)
        (filter (\<lambda>r. \<not> spec_dropped demo_env demo_table r) (rows demo_table))
      = [[Ts 1577836800000000000, Str ''B'', Str ''v1'', Num 10],
         [Ts 1577836800000000000, Str ''A'', Str ''v2'', Num 99]]"
    using cleaned_demo by (simp add: cleaned_def)
  have n: "length (filter (\<lambda>r. \<not> spec_dropped demo_env demo_table r) (rows demo_table)) = 2"
    using arg_cong [OF k, of length] by simp
  show ?thesis
    using cleaning_drops_exactly [OF l, of startup] l s spec_dropped_demo
    unfolding k n by auto
qed

lemma upload_outcomes:
  assumes "filename req \<noteq> []"
    "save env (path_join ''upload'' (filename req)) (content req) = None"
    "stage_load env (content req) = Next x"
  shows "fst (upload env req st) = Redirect ''/results'' \<or>
    (\<exists>e. fst (upload env req st) = Response (''Error while processing file: '' @ e) 200)"
  using assms
  by (auto simp: upload_def upload_try_def Let_def
      split: if_splits step.splits sum.splits option.splits prod.splits)

text \<open>
  Claim C9. When the upload has been saved and the table that cleaning returns has no
  row, the upload cannot reach the redirect: whatever the libraries do with an empty
  table, line 155 divides by \<open>total_transactions = 0\<close>. The handler answers through the
  \<open>except\<close> branch of line 188 and \<open>results_data\<close> is left as it was. (When the save of
  line 88 raises, no stage runs and the exception leaves the handler.)
\<close>

theorem empty_cleaned_table_fails:
  assumes "filename req \<noteq> []"
    and "save env (path_join ''upload'' (filename req)) (content req) = None"
    and "stage_load env (content req) = Next (df0, h)"
    and "stage_clean env df0 = Inr (df1, info)"
    and "rows df1 = []"
  shows "fst (upload env req st) \<noteq> Redirect ''/results'' \<and>
    (\<exists>e. fst (upload env req st) = Response (''Error while processing file: '' @ e) 200) \<and>
    results_data (snd (upload env req st)) = results_data st"
proof -
  have f: "fst (upload env req st) \<noteq> Redirect ''/results''"
  proof
    assume s: "fst (upload env req st) = Redirect ''/results''"
    from upload_success_closed [OF s] obtain df0' h' labels pct F X info' eda where
      l': "stage_load env (content req) = Next (df0', h')" and
      cl: "stage_clean env df0' = Inr (cleaned env df0', info')" and
      fp: "fraud_percentage (int (length (filter (\<lambda>l. l = - 1) (labels :: int list))))
        (int (length (rows (cleaned env df0')))) = Inr pct"
      by blast
    have "df0' = df0" using assms(3) l' by simp
    then have "cleaned env df0' = df1" using assms(4) cl by simp
    then show False using fp assms(5) by (simp add: fraud_percentage_Inr)
  qed
  moreover from upload_outcomes [OF assms(1,2,3), of st] f
  have "\<exists>e. fst (upload env req st) = Response (''Error while processing file: '' @ e) 200"
    by simp
  moreover have "results_data (snd (upload env req st)) = results_data st"
    using f by (rule upload_failure)
  ultimately show ?thesis by blast
qed

lemma stage_load_all_dropped: "stage_load env_all_dropped b = Next (dropped_table, ''<table>'')"
  by (simp add: stage_load_def env_all_dropped_def demo_env_def dropped_table_def Let_def normalise_defs
      expected_cols_def canonical_cols_def getitem_list_def positions_def set_columns_def)

lemma dropped_table_shape: "columns dropped_table = canonical_cols" "rectangular dropped_table"
  by (simp_all add: dropped_table_def rectangular_def canonical_cols_def)

lemma cleaned_all_dropped: "cleaned env_all_dropped dropped_table = \<lparr>columns = canonical_cols, rows = []\<rparr>"
  by (simp add: cleaned_def spec_dropped_def env_all_dropped_def demo_env_def dropped_table_def isnull_def)

theorem empty_cleaned_table_fails_witness:
  "filename demo_request \<noteq> [] \<and>
   save env_all_dropped (path_join ''upload'' (filename demo_request)) (content demo_request) = None \<and>
   stage_load env_all_dropped (content demo_request) = Next (dropped_table, ''<table>'') \<and>
   (\<exists>info. stage_clean env_all_dropped dropped_table = Inr (\<lparr>columns = canonical_cols, rows = []\<rparr>, info)) \<and>
   fst (upload env_all_dropped demo_request previous_results) \<noteq> Redirect ''/results'' \<and>
   (\<exists>e. fst (upload env_all_dropped demo_request previous_results)
      = Response (''Error while processing file: '' @ e) 200) \<and>
   results_data (snd (upload env_all_dropped demo_request previous_results)) = results_data previous_results"
proof -
  have n: "filename demo_request \<noteq> []" by (simp add: demo_request_def)
  have l: "stage_load env_all_dropped (content demo_request) = Next (dropped_table, ''<table>'')"
    by (rule stage_load_all_dropped)
  obtain info where cl: "stage_clean env_all_dropped dropped_table
      = Inr (\<lparr>columns = canonical_cols, rows = []\<rparr>, info)"
    using stage_clean_eq [OF dropped_table_shape, of env_all_dropped] by (simp add: cleaned_all_dropped)
  have e: "rows \<lparr>columns = canonical_cols, rows = []\<rparr> = []" by simp
  have sv: "save env_all_dropped (path_join ''upload'' (filename demo_request)) (content demo_request) = None"
    by (rule demo_saves)
  show ?thesis
    using empty_cleaned_table_fails [OF n sv l cl e, of previous_results] n sv l cl by blast
qed

section \<open>Error responses\<close>

lemma missing_column_response:
  assumes "filename req \<noteq> []"
    "save env (path_join ''upload'' (filename req)) (content req) = None"
    "read_csv env (content req) = Inr df"
    "\<not> list_all (\<lambda>col. col \<in> set (map normalise_col (columns df))) expected_cols"
  shows "fst (upload env req st)
      = Response (''Required columns missing. Found: '' @ repr_list (map normalise_col (columns df))) 400 \<and>
    results_data (snd (upload env req st)) = results_data st"
  using assms by (simp add: upload_def upload_try_def stage_load_def Let_def)

lemma save_failure_response:
  assumes "filename req \<noteq> []"
    "save env (path_join ''upload'' (filename req)) (content req) = Some e"
  shows "upload env req st = (InternalServerError e, st)"
  using assms by (simp add: upload_def)

lemma exception_response:
  assumes "filename req \<noteq> []"
    "save env (path_join ''upload'' (filename req)) (content req) = None"
    "upload_try env (content req)
       (st\<lparr>upload_folder := (upload_folder st)(path_join ''upload'' (filename req) \<mapsto> content req)\<rparr>)
       = (Raised e, st')"
  shows "upload env req st = (Response (''Error while processing file: '' @ e) 200, st')"
  using assms by (simp add: upload_def)

lemma str_of_nat_digit: "n < 10 \<Longrightarrow> str_of_nat n = [''0123456789'' ! n]"
  by (simp add: str_of_nat.simps)

lemma stage_load_two_amounts:
  "stage_load env_two_amounts b
     = Raised ''Length mismatch: Expected axis has 5 elements, new values have 4 elements''"
  by (simp add: stage_load_def env_two_amounts_def demo_env_def Let_def normalise_defs
      expected_cols_def canonical_cols_def getitem_list_def positions_def set_columns_def
      str_of_nat_digit)

text \<open>
  Claim C3 fails on the code. A file that has the four required columns and one more
  column, whose name differs from \<open>amount\<close> in case only, is not processed: after line 94
  both columns are labelled \<open>amount\<close>, line 100 selects both, and the assignment of the
  four canonical names in line 101 raises. The handler answers with the text of the
  exception.
\<close>

theorem extra_column_raises:
  "list_all (\<lambda>col. col \<in> set (map normalise_col
       [''transaction_date'', ''agency_name'', ''vendor'', ''amount'', ''Amount''])) expected_cols \<and>
   fst (upload env_two_amounts demo_request startup)
     = Response (''Error while processing file: Length mismatch: Expected axis has 5 elements, new values have 4 elements'') 200"
  by (simp add: upload_def upload_try_def stage_load_two_amounts demo_saves demo_path
      demo_filename normalise_defs expected_cols_def)

lemma cleaned_all_dropped_shape:
  "columns (cleaned env_all_dropped dropped_table) = canonical_cols"
  "rectangular (cleaned env_all_dropped dropped_table)"
  by (simp_all add: cleaned_all_dropped rectangular_def)

lemma stage_model_all_dropped:
  "stage_model env_all_dropped (features env_all_dropped (cleaned env_all_dropped dropped_table))
     = Inl ''Found array with 0 sample(s) (shape=(0, 5)) while a minimum of 1 is required by StandardScaler.''"
  unfolding cleaned_all_dropped
  by (simp add: stage_model_def getitem_list_def feature_cols_def canonical_cols_def Let_def
      features_def add_column_def column_def env_all_dropped_def demo_env_def)

text \<open>
  Claim C6 fails on the code. When a stage raises, here the scaler on a table that
  cleaning has emptied, the handler returns the text of line 188 without a status, which
  Flask sends as 200, not as a server error; the text of the exception is in the body.
\<close>

theorem exception_answered_with_status_200:
  "fst (upload env_all_dropped demo_request startup)
     = Response (''Error while processing file: '' @
         ''Found array with 0 sample(s) (shape=(0, 5)) while a minimum of 1 is required by StandardScaler.'') 200"
proof -
  let ?df2 = "features env_all_dropped (cleaned env_all_dropped dropped_table)"
  have c2: "columns ?df2 = canonical_cols @ [''Month'', ''DayOfWeek'', ''AGENCY_CODE'', ''MERCHANT_CODE'']"
    by (simp add: dropped_table_shape)
  have sf: "\<And>p f. savefig env_all_dropped p f = None"
    by (simp add: env_all_dropped_def demo_env_def)
  show ?thesis
    by (simp add: upload_def upload_try_def demo_saves demo_path demo_filename stage_load_all_dropped
        stage_clean_eq [OF dropped_table_shape] stage_features_eq [OF cleaned_all_dropped_shape]
        stage_eda_eq [OF c2] stage_model_all_dropped sf Let_def)
qed

section \<open>Determinism\<close>

lemma coerce_cell_global_rng: "coerce_cell (env\<lparr>global_rng := g\<rparr>) = coerce_cell env"
  by (simp add: fun_eq_iff coerce_cell_def)

lemma stage_global_rng:
  "stage_load (env\<lparr>global_rng := g\<rparr>) = stage_load env"
  "stage_clean (env\<lparr>global_rng := g\<rparr>) = stage_clean env"
  "stage_features (env\<lparr>global_rng := g\<rparr>) = stage_features env"
  "stage_eda (env\<lparr>global_rng := g\<rparr>) = stage_eda env"
  "stage_model (env\<lparr>global_rng := g\<rparr>) = stage_model env"
  by (simp_all add: fun_eq_iff stage_load_def stage_clean_def stage_features_def stage_eda_def
      stage_model_def coerce_dates_def coerce_cell_global_rng fit_predict_def model_def check_random_state_def
      Let_def cong: step.case_cong sum.case_cong option.case_cong prod.case_cong if_cong)

lemma upload_try_global_rng: "upload_try (env\<lparr>global_rng := g\<rparr>) b st = upload_try env b st"
  by (simp add: upload_try_def stage_global_rng
      cong: step.case_cong sum.case_cong option.case_cong prod.case_cong)

lemma upload_global_rng: "upload (env\<lparr>global_rng := g\<rparr>) req st = upload env req st"
  by (simp add: upload_def upload_try_global_rng Let_def split: option.splits)

lemma upload_try_response_state_free:
  "fst (upload_try env b st) = fst (upload_try env b st')"
  by (simp add: upload_try_def Let_def split: step.splits sum.splits option.splits prod.splits)

lemma upload_response_state_free: "fst (upload env req st) = fst (upload env req st')"
proof (cases "filename req = [] \<or> save env (path_join ''upload'' (filename req)) (content req) \<noteq> None")
  case True
  then show ?thesis by (auto simp: upload_def)
next
  case False
  let ?p = "path_join ''upload'' (filename req)"
  let ?s = "st\<lparr>upload_folder := (upload_folder st)(?p \<mapsto> content req)\<rparr>"
  let ?s' = "st'\<lparr>upload_folder := (upload_folder st')(?p \<mapsto> content req)\<rparr>"
  have "fst (upload_try env (content req) ?s) = fst (upload_try env (content req) ?s')"
    by (rule upload_try_response_state_free)
  then show ?thesis
    using False
    by (cases "upload_try env (content req) ?s"; cases "upload_try env (content req) ?s'")
      (auto simp: upload_def split: step.splits)
qed


lemma successful_upload_state_free:
  assumes s: "fst (upload env req st) = Redirect ''/results''"
  shows "download (snd (upload env req st)) = download (snd (upload env req st')) \<and>
    map_of (results_data (snd (upload env req st))) ''fraud_count''
      = map_of (results_data (snd (upload env req st'))) ''fraud_count'' \<and>
    map_of (results_data (snd (upload env req st))) ''total_transactions''
      = map_of (results_data (snd (upload env req st'))) ''total_transactions'' \<and>
    map_of (results_data (snd (upload env req st))) ''fraud_percentage''
      = map_of (results_data (snd (upload env req st'))) ''fraud_percentage''"
proof -
  have s': "fst (upload env req st') = Redirect ''/results''"
    using s upload_response_state_free [of env req st st'] by simp
  from upload_success_closed [OF s] obtain df0 h labels pct F X info eda where
    l: "stage_load env (content req) = Next (df0, h)" and
    gl: "getitem_list feature_cols (features env (cleaned env df0)) = Inr F" and
    ft: "fit_transform env F = Inr X" and
    fo: "isolation_forest env 100 (float_round (2 / 100)) (seeded_rng env 42) X = Inr labels" and
    fp: "fraud_percentage (int (length (filter (\<lambda>l. l = - 1) labels)))
      (int (length (rows (cleaned env df0)))) = Inr pct" and
    rd: "results_data (snd (upload env req st)) =
      dict_update (results_data st)
        (result_set h info eda
           (to_html env ''table table-striped'' (flagged labels (features env (cleaned env df0))))
           (int (length (filter (\<lambda>l. l = - 1) labels))) (int (length (rows (cleaned env df0)))) pct)" and
    rf: "result_folder (snd (upload env req st)) =
      (result_folder st)(''fraud_report.csv'' \<mapsto> flagged labels (features env (cleaned env df0)))"
    by blast
  from upload_success_closed [OF s'] obtain df0' h' labels' pct' F' X' info' eda' where
    l': "stage_load env (content req) = Next (df0', h')" and
    gl': "getitem_list feature_cols (features env (cleaned env df0')) = Inr F'" and
    ft': "fit_transform env F' = Inr X'" and
    fo': "isolation_forest env 100 (float_round (2 / 100)) (seeded_rng env 42) X' = Inr labels'" and
    fp': "fraud_percentage (int (length (filter (\<lambda>l. l = - 1) labels')))
      (int (length (rows (cleaned env df0')))) = Inr pct'" and
    rd': "results_data (snd (upload env req st')) =
      dict_update (results_data st')
        (result_set h' info' eda'
           (to_html env ''table table-striped'' (flagged labels' (features env (cleaned env df0'))))
           (int (length (filter (\<lambda>l. l = - 1) labels'))) (int (length (rows (cleaned env df0')))) pct')" and
    rf': "result_folder (snd (upload env req st')) =
      (result_folder st')(''fraud_report.csv'' \<mapsto> flagged labels' (features env (cleaned env df0')))"
    by blast
  have d: "df0' = df0" using l l' by simp
  have f: "F' = F" using gl gl' by (simp add: d)
  have x: "X' = X" using ft ft' by (simp add: f)
  have lb: "labels' = labels" using fo fo' by (simp add: x)
  have p: "pct' = pct" using fp fp' by (simp add: d lb)
  show ?thesis
    by (simp add: download_def rf rf' rd rd' map_of_result_set d lb p)
qed

text \<open>
  Claim C2. The estimator of line 145 is built with \<open>random_state=42\<close>, so the
  generator it draws from is the one seeded with 42 and not the global one. Two runs on
  the same file, with the same libraries, whatever the state of the global generator
  and whatever earlier uploads left on the server, give the same response, and when
  they succeed the same report of flagged rows and the same counters.
\<close>

theorem seeded_run_is_deterministic:
  "fst (upload (env\<lparr>global_rng := g\<rparr>) req st) = fst (upload (env\<lparr>global_rng := g'\<rparr>) req st') \<and>
   (fst (upload (env\<lparr>global_rng := g\<rparr>) req st) = Redirect ''/results'' \<longrightarrow>
      download (snd (upload (env\<lparr>global_rng := g\<rparr>) req st))
        = download (snd (upload (env\<lparr>global_rng := g'\<rparr>) req st')) \<and>
      map_of (results_data (snd (upload (env\<lparr>global_rng := g\<rparr>) req st))) ''fraud_count''
        = map_of (results_data (snd (upload (env\<lparr>global_rng := g'\<rparr>) req st'))) ''fraud_count'' \<and>
      map_of (results_data (snd (upload (env\<lparr>global_rng := g\<rparr>) req st))) ''total_transactions''
        = map_of (results_data (snd (upload (env\<lparr>global_rng := g'\<rparr>) req st'))) ''total_transactions'' \<and>
      map_of (results_data (snd (upload (env\<lparr>global_rng := g\<rparr>) req st))) ''fraud_percentage''
        = map_of (results_data (snd (upload (env\<lparr>global_rng := g'\<rparr>) req st'))) ''fraud_percentage'')"
  unfolding upload_global_rng
  using upload_response_state_free [of env req st st'] successful_upload_state_free [of env req st st']
  by blast

theorem seeded_run_is_deterministic_witness:
  "fst (upload (demo_env\<lparr>global_rng := 1\<rparr>) demo_request startup) = Redirect ''/results'' \<and>
   fst (upload (demo_env\<lparr>global_rng := 2\<rparr>) demo_request previous_results) = Redirect ''/results'' \<and>
   download (snd (upload (demo_env\<lparr>global_rng := 1\<rparr>) demo_request startup))
     = download (snd (upload (demo_env\<lparr>global_rng := 2\<rparr>) demo_request previous_results)) \<and>
   map_of (results_data (snd (upload (demo_env\<lparr>global_rng := 1\<rparr>) demo_request startup))) ''fraud_count''
     = Some (PyInt 1) \<and>
   map_of (results_data (snd (upload (demo_env\<lparr>global_rng := 2\<rparr>) demo_request previous_results))) ''fraud_count''
     = Some (PyInt 1)"
proof -
  have s: "fst (upload (demo_env\<lparr>global_rng := 1\<rparr>) demo_request startup) = Redirect ''/results''"
    unfolding upload_global_rng by (rule upload_demo_succeeds)
  have c: "map_of (results_data (snd (upload (demo_env\<lparr>global_rng := 1\<rparr>) demo_request startup))) ''fraud_count''
     = Some (PyInt 1)"
    unfolding upload_global_rng using upload_demo_counters [of startup] by simp
  show ?thesis
    using seeded_run_is_deterministic [where env = demo_env and g = 1 and g' = 2
        and req = demo_request and st = startup and st' = previous_results] s c
    by simp
qed

section \<open>Bounds and the invariant of the result set\<close>

lemma round_half_even_le: "x \<le> of_int n \<Longrightarrow> round_half_even x \<le> n"
proof -
  assume a: "x \<le> of_int n"
  have f: "of_int \<lfloor>x\<rfloor> \<le> x" by simp
  have le: "\<lfloor>x\<rfloor> \<le> n" using a by (simp add: floor_le_iff)
  have strict: "0 < x - of_int \<lfloor>x\<rfloor> \<Longrightarrow> \<lfloor>x\<rfloor> + 1 \<le> n"
  proof -
    assume "0 < x - of_int \<lfloor>x\<rfloor>"
    then have "(of_int \<lfloor>x\<rfloor> :: rat) < of_int n" using a by linarith
    then have "\<lfloor>x\<rfloor> < n" by (simp only: of_int_less_iff)
    then show ?thesis by simp
  qed
  show ?thesis
    using le strict by (auto simp: round_half_even_def Let_def)
qed

lemma round_half_even_nonneg: "0 \<le> x \<Longrightarrow> 0 \<le> round_half_even x"
  by (auto simp: round_half_even_def Let_def)

lemma float_exponent_le:
  assumes "x \<le> of_int n" "n < 2 ^ 53"
  shows "float_exponent x \<le> 52"
proof (cases "1 \<le> x")
  case True
  have "\<lfloor>x\<rfloor> \<le> n" using assms(1) by (simp add: floor_le_iff)
  then have "\<lfloor>x\<rfloor> < 2 ^ 53" using assms(2) by (rule le_less_trans)
  then have "\<lfloor>x\<rfloor> < 2 ^ nat 53" by (simp only: nat_numeral)
  then have "bitlen \<lfloor>x\<rfloor> \<le> 53" by (simp add: bitlen_le_iff_power)
  then show ?thesis using True by (simp add: float_exponent_def)
next
  case False
  then show ?thesis using bitlen_nonneg [of "\<lceil>1 / x\<rceil> - 1"] by (simp add: float_exponent_def)
qed

lemma float_round_bounds:
  assumes "0 \<le> x" "x \<le> of_int n" "n < 2 ^ 53"
  shows "0 \<le> float_round x \<and> float_round x \<le> of_int n"
proof (cases "x = 0")
  case True
  then show ?thesis using assms by (simp add: float_round_def)
next
  case False
  then have pos: "0 < x" using assms(1) by simp
  let ?e = "float_exponent x"
  let ?k = "nat (52 - ?e)"
  have e: "?e \<le> 52" using assms(2,3) by (rule float_exponent_le)
  have u: "ulp ?e = 1 / 2 ^ ?k"
    using e by (cases "?e = 52") (simp_all add: ulp_def)
  have "x * 2 ^ ?k \<le> of_int n * 2 ^ ?k" using assms(2) by simp
  then have "x * 2 ^ ?k \<le> of_int (n * 2 ^ ?k)" by simp
  then have up: "round_half_even (x * 2 ^ ?k) \<le> n * 2 ^ ?k" by (rule round_half_even_le)
  have lo: "0 \<le> round_half_even (x * 2 ^ ?k)"
    using assms(1) by (intro round_half_even_nonneg) simp
  have fr: "float_round x = of_int (round_half_even (x * 2 ^ ?k)) / 2 ^ ?k"
    using pos by (simp add: float_round_def u)
  have "(of_int (round_half_even (x * 2 ^ ?k)) :: rat) \<le> of_int (n * 2 ^ ?k)"
    using up by (simp only: of_int_le_iff)
  then have "(of_int (round_half_even (x * 2 ^ ?k)) :: rat) / 2 ^ ?k \<le> of_int n"
    by (simp add: field_simps)
  moreover have "0 \<le> (of_int (round_half_even (x * 2 ^ ?k)) :: rat) / 2 ^ ?k"
    using lo by simp
  ultimately show ?thesis by (simp add: fr)
qed

lemma fraud_percentage_bounds:
  assumes "fraud_percentage fc tt = Inr pct" "0 \<le> fc" "fc \<le> tt"
  shows "0 \<le> pct \<and> pct \<le> 100"
proof -
  from assms(1) have tt: "tt \<noteq> 0"
    and pct: "pct = py_round2 (float_mul (float_round (of_int fc / of_int tt)) 100)"
    by (simp_all add: fraud_percentage_Inr)
  let ?q = "float_round (of_int fc / of_int tt)"
  let ?y = "float_mul ?q 100"
  have pos: "0 < tt" using assms(2,3) tt by simp
  have "0 \<le> (of_int fc / of_int tt :: rat)" "(of_int fc / of_int tt :: rat) \<le> of_int 1"
    using assms(2,3) pos by simp_all
  then have q: "0 \<le> ?q \<and> ?q \<le> of_int 1" by (rule float_round_bounds) simp
  then have "0 \<le> ?q * 100" "?q * 100 \<le> of_int 100" by simp_all
  then have y: "0 \<le> ?y \<and> ?y \<le> of_int 100"
    unfolding float_mul_def by (rule float_round_bounds) simp
  then have "?y * 100 \<le> of_int 10000" by simp
  then have up: "round_half_even (?y * 100) \<le> 10000" by (rule round_half_even_le)
  have lo: "0 \<le> round_half_even (?y * 100)" using y by (intro round_half_even_nonneg) simp
  have "(of_int (round_half_even (?y * 100)) :: rat) \<le> of_int 10000"
    using up by (simp only: of_int_le_iff)
  then have "0 \<le> (of_int (round_half_even (?y * 100)) / 100 :: rat)"
    "(of_int (round_half_even (?y * 100)) / 100 :: rat) \<le> of_int 100"
    using lo by simp_all
  then have "0 \<le> py_round2 ?y \<and> py_round2 ?y \<le> of_int 100"
    unfolding py_round2_def by (rule float_round_bounds) simp
  then show ?thesis by (simp add: pct)
qed


lemma keys_dict_set:
  "k \<in> set (map fst d) \<Longrightarrow> map fst (dict_set k v d) = map fst d"
  by (induction d) force+

lemma keys_dict_update:
  "set (map fst kvs) \<subseteq> set (map fst d) \<Longrightarrow> map fst (dict_update d kvs) = map fst d"
proof (induction kvs arbitrary: d)
  case Nil
  then show ?case by simp
next
  case (Cons kv kvs)
  obtain k v where kv: "kv = (k, v)" by (cases kv)
  from Cons.prems have k: "k \<in> set (map fst d)" and r: "set (map fst kvs) \<subseteq> set (map fst d)"
    by (simp_all add: kv)
  have "map fst (dict_update (dict_set k v d) kvs) = map fst (dict_set k v d)"
    using r by (intro Cons.IH) (simp add: keys_dict_set [OF k])
  then show ?case by (simp add: kv keys_dict_set [OF k])
qed

lemma keys_result_set: "map fst (result_set h info eda html fc tt pct) = result_keys"
  by (simp add: result_set_def result_keys_def)

lemma keys_after_update:
  assumes "d = [] \<or> map fst d = result_keys"
  shows "map fst (dict_update d (result_set h info eda html fc tt pct)) = result_keys"
  using assms
proof
  assume "d = []"
  then show ?thesis by (simp add: result_set_def result_keys_def)
next
  assume k: "map fst d = result_keys"
  have "map fst (dict_update d (result_set h info eda html fc tt pct)) = map fst d"
    by (rule keys_dict_update) (simp add: keys_result_set k)
  then show ?thesis by (simp add: k)
qed

lemma result_set_ok_after_success:
  assumes s: "fst (upload env req st) = Redirect ''/results''"
    and k: "results_data st = [] \<or> map fst (results_data st) = result_keys"
  shows "result_set_ok (results_data (snd (upload env req st)))"
proof -
  from upload_success_closed [OF s] obtain df0 h labels pct F X info eda where
    len: "length labels = length (rows (cleaned env df0))" and
    fp: "fraud_percentage (int (length (filter (\<lambda>l. l = - 1) labels)))
      (int (length (rows (cleaned env df0)))) = Inr pct" and
    rd: "results_data (snd (upload env req st)) =
      dict_update (results_data st)
        (result_set h info eda
           (to_html env ''table table-striped'' (flagged labels (features env (cleaned env df0))))
           (int (length (filter (\<lambda>l. l = - 1) labels))) (int (length (rows (cleaned env df0)))) pct)"
    by blast
  have le: "int (length (filter (\<lambda>l. l = - 1) labels)) \<le> int (length (rows (cleaned env df0)))"
    using length_filter_le [of "\<lambda>l. l = - 1" labels] by (simp add: len)
  have b: "0 \<le> pct \<and> pct \<le> 100"
    using fp _ le by (rule fraud_percentage_bounds) simp
  show ?thesis
    unfolding result_set_ok_def rd
    using keys_after_update [OF k] le b by (simp add: map_of_result_set)
qed

lemma reachable_invariant:
  "reachable b st \<Longrightarrow> (if b then result_set_ok (results_data st) else results_data st = [])"
proof (induction rule: reachable.induct)
  case reachable_startup
  then show ?case by (simp add: startup_def)
next
  case (reachable_upload b st env req)
  have k: "results_data st = [] \<or> map fst (results_data st) = result_keys"
    using reachable_upload.IH by (cases b) (simp_all add: result_set_ok_def)
  show ?case
  proof (cases "fst (upload env req st) = Redirect ''/results''")
    case True
    then show ?thesis using result_set_ok_after_success [OF True k] by simp
  next
    case False
    then show ?thesis using reachable_upload.IH upload_failure [OF False] by simp
  qed
qed

text \<open>
  Claim C10. In every state that the server reaches from startup through uploads,
  successful or failed, \<open>results_data\<close> is empty as long as no upload has succeeded,
  and from the first successful upload on it holds exactly the nine keys, with
  \<open>0 \<le> fraud_count \<le> total_transactions\<close> and \<open>0 \<le> fraud_percentage \<le> 100\<close>; in
  particular this holds right after every successful upload.
\<close>

theorem result_set_invariant:
  assumes "reachable b st"
  shows "(if b then result_set_ok (results_data st) else results_data st = []) \<and>
    (fst (upload env req st) = Redirect ''/results'' \<longrightarrow>
       result_set_ok (results_data (snd (upload env req st))))"
proof -
  have a: "if b then result_set_ok (results_data st) else results_data st = []"
    using assms by (rule reachable_invariant)
  have "reachable (b \<or> fst (upload env req st) = Redirect ''/results'') (snd (upload env req st))"
    using assms by (rule reachable_upload)
  from reachable_invariant [OF this] a show ?thesis by auto
qed

lemma result_set_ok_demo:
  "result_set_ok [(''raw_preview'', a), (''preprocessing_summary'', b), (''eda_summary'', c),
     (''fraud_table'', d), (''eda_plot'', e), (''fraud_plot'', f), (''fraud_count'', PyInt 1),
     (''total_transactions'', PyInt 2), (''fraud_percentage'', PyFloat 50)]"
  by (simp add: result_set_ok_def result_keys_def)

theorem result_set_invariant_witness:
  "reachable False startup \<and> results_data startup = [] \<and>
   reachable True (run_uploads [(env_no_vendor, demo_request), (demo_env, demo_request),
      (env_unreadable, demo_request)] startup) \<and>
   result_set_ok (results_data (run_uploads [(env_no_vendor, demo_request), (demo_env, demo_request),
      (env_unreadable, demo_request)] startup)) \<and>
   map_of (results_data (run_uploads [(env_no_vendor, demo_request), (demo_env, demo_request),
      (env_unreadable, demo_request)] startup)) ''fraud_count'' = Some (PyInt 1) \<and>
   fst (upload demo_env demo_request (snd (upload env_no_vendor demo_request startup))) = Redirect ''/results''"
proof -
  let ?s1 = "snd (upload env_no_vendor demo_request startup)"
  let ?s2 = "snd (upload demo_env demo_request ?s1)"
  let ?s3 = "snd (upload env_unreadable demo_request ?s2)"
  have r0: "reachable False startup" by (rule reachable_startup)
  have "reachable (False \<or> fst (upload env_no_vendor demo_request startup) = Redirect ''/results'') ?s1"
    using r0 by (rule reachable_upload)
  then have r1: "reachable False ?s1" by (simp add: upload_no_vendor)
  have "reachable (False \<or> fst (upload demo_env demo_request ?s1) = Redirect ''/results'') ?s2"
    using r1 by (rule reachable_upload)
  then have r2: "reachable True ?s2" by (simp add: upload_demo_succeeds)
  have "reachable (True \<or> fst (upload env_unreadable demo_request ?s2) = Redirect ''/results'') ?s3"
    using r2 by (rule reachable_upload)
  then have r3: "reachable True ?s3" by simp
  have run: "run_uploads [(env_no_vendor, demo_request), (demo_env, demo_request),
      (env_unreadable, demo_request)] startup = ?s3" by simp
  have keep: "results_data ?s3 = results_data ?s2"
    by (rule upload_failure) (simp add: upload_unreadable)
  have fc: "map_of (results_data ?s3) ''fraud_count'' = Some (PyInt 1)"
    using upload_demo_counters [of ?s1] by (simp add: keep)
  show ?thesis
    using result_set_invariant [OF r3, of demo_env demo_request] r0 r3 fc upload_demo_succeeds [of ?s1]
    unfolding run by (simp add: startup_def)
qed

section \<open>Category codes of agencies and merchants\<close>

lemma inj_cell_key: "cell_key x = cell_key y \<Longrightarrow> x = y"
  by (cases x; cases y) simp_all

lemma index_of_nth: "distinct cs \<Longrightarrow> k < length cs \<Longrightarrow> index_of (cs ! k) cs = k"
proof (induction cs arbitrary: k)
  case Nil
  then show ?case by simp
next
  case (Cons c cs)
  then show ?case by (cases k) auto
qed

lemma index_of_eq_iff:
  assumes "x \<in> set cs" "y \<in> set cs"
  shows "index_of x cs = index_of y cs \<longleftrightarrow> x = y"
proof
  assume e: "index_of x cs = index_of y cs"
  have "x = cs ! index_of x cs" using assms(1) by (simp only: nth_index_of)
  also have "\<dots> = cs ! index_of y cs" by (simp only: e)
  also have "\<dots> = y" using assms(2) by (simp only: nth_index_of)
  finally show "x = y" .
next
  assume "x = y"
  then show "index_of x cs = index_of y cs" by simp
qed

lemma set_categories: "set (categories xs) = set xs - {NaN}"
  by (auto simp: categories_def isnull_def)

lemma distinct_categories: "distinct (categories xs)"
  by (simp add: categories_def)

lemma sorted_categories: "sorted (map cell_key (categories xs))"
  by (simp add: categories_def)

lemma length_categories: "length (categories xs) = card (set xs - {NaN})"
  using distinct_card [OF distinct_categories, of xs] by (simp add: set_categories)

lemma index_of_less_iff:
  assumes s: "sorted (map cell_key cs)" and d: "distinct cs" and x: "x \<in> set cs" and y: "y \<in> set cs"
  shows "index_of x cs < index_of y cs \<longleftrightarrow> cell_key x < cell_key y"
proof -
  have mono: "\<And>a b. a \<in> set cs \<Longrightarrow> b \<in> set cs \<Longrightarrow> index_of a cs < index_of b cs
      \<Longrightarrow> cell_key a < cell_key b"
  proof -
    fix a b assume a: "a \<in> set cs" and b: "b \<in> set cs" and l: "index_of a cs < index_of b cs"
    have lb: "index_of b cs < length cs" using b by (rule index_of_less)
    have "map cell_key cs ! index_of a cs \<le> map cell_key cs ! index_of b cs"
      using s l lb by (simp add: sorted_iff_nth_mono)
    then have le: "cell_key a \<le> cell_key b"
      using l lb a b by (simp add: nth_index_of)
    have "a \<noteq> b" using l by auto
    then have "cell_key a \<noteq> cell_key b" using inj_cell_key by blast
    then show "cell_key a < cell_key b" using le by simp
  qed
  show ?thesis
  proof
    assume "index_of x cs < index_of y cs"
    then show "cell_key x < cell_key y" using x y by (intro mono)
  next
    assume l: "cell_key x < cell_key y"
    show "index_of x cs < index_of y cs"
    proof (rule ccontr)
      assume "\<not> index_of x cs < index_of y cs"
      then consider "index_of y cs < index_of x cs" | "index_of x cs = index_of y cs" by linarith
      then show False
      proof cases
        case 1
        then have "cell_key y < cell_key x" using x y by (intro mono)
        then show False using l by simp
      next
        case 2
        then have "x = y" using x y by (simp add: index_of_eq_iff)
        then show False using l by simp
      qed
    qed
  qed
qed

lemma cat_codes_nth:
  "i < length xs \<Longrightarrow> xs ! i \<noteq> NaN \<Longrightarrow> cat_codes xs ! i = int (index_of (xs ! i) (categories xs))"
  by (simp add: cat_codes_def isnull_def)

lemma length_cat_codes [simp]: "length (cat_codes xs) = length xs"
  by (simp add: cat_codes_def)

lemma cat_codes_properties:
  assumes i: "i < length xs" and j: "j < length xs" and ni: "xs ! i \<noteq> NaN" and nj: "xs ! j \<noteq> NaN"
  shows "(cat_codes xs ! i = cat_codes xs ! j \<longleftrightarrow> xs ! i = xs ! j) \<and>
    (cat_codes xs ! i < cat_codes xs ! j \<longleftrightarrow> cell_key (xs ! i) < cell_key (xs ! j)) \<and>
    0 \<le> cat_codes xs ! i \<and> cat_codes xs ! i < int (card (set xs - {NaN}))"
proof -
  have mi: "xs ! i \<in> set (categories xs)" using i ni by (simp add: set_categories)
  have mj: "xs ! j \<in> set (categories xs)" using j nj by (simp add: set_categories)
  have a: "cat_codes xs ! i = cat_codes xs ! j \<longleftrightarrow> xs ! i = xs ! j"
    using index_of_eq_iff [OF mi mj] by (simp add: cat_codes_nth i j ni nj)
  have b: "cat_codes xs ! i < cat_codes xs ! j \<longleftrightarrow> cell_key (xs ! i) < cell_key (xs ! j)"
    using index_of_less_iff [OF sorted_categories distinct_categories mi mj]
    by (simp add: cat_codes_nth i j ni nj)
  have c: "cat_codes xs ! i < int (card (set xs - {NaN}))"
    using index_of_less [OF mi] by (simp add: cat_codes_nth i ni length_categories)
  show ?thesis using a b c by (simp add: cat_codes_nth i ni)
qed

lemma cat_codes_dense:
  assumes "k < card (set xs - {NaN})"
  shows "\<exists>i<length xs. xs ! i \<noteq> NaN \<and> cat_codes xs ! i = int k"
proof -
  let ?cs = "categories xs"
  have k: "k < length ?cs" using assms by (simp add: length_categories)
  then have "?cs ! k \<in> set ?cs" by simp
  then have m: "?cs ! k \<in> set xs" and n: "?cs ! k \<noteq> NaN" by (simp_all add: set_categories)
  from m obtain i where i: "i < length xs" and x: "xs ! i = ?cs ! k" by (auto simp: in_set_conv_nth)
  have "cat_codes xs ! i = int (index_of (?cs ! k) ?cs)"
    using i n by (simp add: cat_codes_nth x)
  also have "\<dots> = int k" using distinct_categories k by (simp add: index_of_nth)
  finally show ?thesis using i n x by auto
qed


lemma code_columns_features:
  assumes c: "columns df = canonical_cols" and r: "rectangular df"
  shows "getitem ''AGENCY_CODE'' (features env df) = Inr (code_cells (column ''AGENCY_NAME'' df))"
    and "getitem ''MERCHANT_CODE'' (features env df) = Inr (code_cells (column ''MERCHANT_NAME'' df))"
proof -
  let ?m = "map (dt_field (dt_month env)) (column ''TRANSACTION_DATE'' df)"
  let ?d = "map (dt_field (dt_dayofweek env)) (column ''TRANSACTION_DATE'' df)"
  let ?d1 = "add_column ''Month'' ?m df"
  let ?d2 = "add_column ''DayOfWeek'' ?d ?d1"
  let ?d3 = "add_column ''AGENCY_CODE'' (code_cells (column ''AGENCY_NAME'' df)) ?d2"
  have r1: "rectangular ?d1" using r by (rule rectangular_add_column)
  have r2: "rectangular ?d2" using r1 by (rule rectangular_add_column)
  have r3: "rectangular ?d3" using r2 by (rule rectangular_add_column)
  have a3: "column ''AGENCY_CODE'' ?d3 = code_cells (column ''AGENCY_NAME'' df)"
    by (rule column_add_column_new [OF r2]) (simp_all add: c canonical_cols_def)
  have "column ''AGENCY_CODE'' (features env df) = column ''AGENCY_CODE'' ?d3"
    unfolding features_def by (rule column_add_column_old [OF r3]) (simp_all add: c canonical_cols_def)
  then show "getitem ''AGENCY_CODE'' (features env df) = Inr (code_cells (column ''AGENCY_NAME'' df))"
    by (simp add: getitem_column a3 c canonical_cols_def)
  have "column ''MERCHANT_CODE'' (features env df) = code_cells (column ''MERCHANT_NAME'' df)"
    unfolding features_def by (rule column_add_column_new [OF r3]) (simp_all add: c canonical_cols_def)
  then show "getitem ''MERCHANT_CODE'' (features env df) = Inr (code_cells (column ''MERCHANT_NAME'' df))"
    by (simp add: getitem_column c canonical_cols_def)
qed

text \<open>
  Claim C5, as amended. The feature engineering lines give \<open>AGENCY_CODE\<close> and
  \<open>MERCHANT_CODE\<close> the category codes of the agency and merchant columns of the
  table at hand. Within a column the codes follow the sorted order of the distinct
  values, not the order of first appearance: two rows have the same code exactly when
  they have the same value, a smaller code exactly when the value sorts first, and the
  codes are the integers from 0 up to the number of distinct values, each of them
  taken. They are a function of the column alone.
\<close>

theorem category_codes_by_sorted_order:
  assumes "columns df = canonical_cols" and "rectangular df"
  shows "(\<exists>df' agencies merchants.
      stage_features env df = Inr df' \<and>
      getitem ''AGENCY_NAME'' df = Inr agencies \<and>
      getitem ''MERCHANT_NAME'' df = Inr merchants \<and>
      getitem ''AGENCY_CODE'' df' = Inr (map (\<lambda>k. Num (of_int k)) (cat_codes agencies)) \<and>
      getitem ''MERCHANT_CODE'' df' = Inr (map (\<lambda>k. Num (of_int k)) (cat_codes merchants))) \<and>
    (\<forall>xs i j. i < length xs \<and> j < length xs \<and> xs ! i \<noteq> NaN \<and> xs ! j \<noteq> NaN \<longrightarrow>
      (cat_codes xs ! i = cat_codes xs ! j \<longleftrightarrow> xs ! i = xs ! j) \<and>
      (cat_codes xs ! i < cat_codes xs ! j \<longleftrightarrow> cell_key (xs ! i) < cell_key (xs ! j)) \<and>
      0 \<le> cat_codes xs ! i \<and> cat_codes xs ! i < int (card (set xs - {NaN}))) \<and>
    (\<forall>xs k. k < card (set xs - {NaN}) \<longrightarrow>
      (\<exists>i<length xs. xs ! i \<noteq> NaN \<and> cat_codes xs ! i = int k))"
proof -
  have "stage_features env df = Inr (features env df)"
    using assms by (rule stage_features_eq)
  moreover have "getitem ''AGENCY_NAME'' df = Inr (column ''AGENCY_NAME'' df)"
    "getitem ''MERCHANT_NAME'' df = Inr (column ''MERCHANT_NAME'' df)"
    by (simp_all add: getitem_column assms(1) canonical_cols_def)
  moreover note code_columns_features [OF assms, of env, unfolded code_cells_def]
  ultimately have a: "\<exists>df' agencies merchants.
      stage_features env df = Inr df' \<and>
      getitem ''AGENCY_NAME'' df = Inr agencies \<and>
      getitem ''MERCHANT_NAME'' df = Inr merchants \<and>
      getitem ''AGENCY_CODE'' df' = Inr (map (\<lambda>k. Num (of_int k)) (cat_codes agencies)) \<and>
      getitem ''MERCHANT_CODE'' df' = Inr (map (\<lambda>k. Num (of_int k)) (cat_codes merchants))"
    by blast
  show ?thesis
    using a cat_codes_properties cat_codes_dense by blast
qed

lemma codes_table_shape: "columns codes_table = canonical_cols" "rectangular codes_table"
  by (simp_all add: codes_table_def rectangular_def canonical_cols_def)

lemma codes_table_columns:
  "getitem ''AGENCY_NAME'' codes_table = Inr [Str ''Police'', Str ''Health'']"
  "getitem ''MERCHANT_NAME'' codes_table = Inr [Str ''v1'', Str ''v1'']"
  by (simp_all add: getitem_def codes_table_def canonical_cols_def)

lemma cat_codes_police_health:
  "cat_codes [Str ''Police'', Str ''Health''] = [1, 0]" "cat_codes [Str ''v1'', Str ''v1''] = [0, 0]"
  by code_simp+

theorem category_codes_by_sorted_order_witness:
  "columns codes_table = canonical_cols \<and> rectangular codes_table \<and>
   (\<exists>df'. stage_features demo_env codes_table = Inr df' \<and>
      getitem ''AGENCY_CODE'' df' = Inr [Num 1, Num 0] \<and>
      getitem ''MERCHANT_CODE'' df' = Inr [Num 0, Num 0]) \<and>
   cell_key (Str ''Health'') < cell_key (Str ''Police'') \<and>
   cat_codes [Str ''Police'', Str ''Health''] ! 1 < cat_codes [Str ''Police'', Str ''Health''] ! 0"
proof -
  from category_codes_by_sorted_order [OF codes_table_shape, of demo_env]
  obtain df' agencies merchants where
    f: "stage_features demo_env codes_table = Inr df'" and
    a: "getitem ''AGENCY_NAME'' codes_table = Inr agencies" and
    m: "getitem ''MERCHANT_NAME'' codes_table = Inr merchants" and
    ac: "getitem ''AGENCY_CODE'' df' = Inr (map (\<lambda>k. Num (of_int k)) (cat_codes agencies))" and
    mc: "getitem ''MERCHANT_CODE'' df' = Inr (map (\<lambda>k. Num (of_int k)) (cat_codes merchants))"
    by blast
  have "agencies = [Str ''Police'', Str ''Health'']" "merchants = [Str ''v1'', Str ''v1'']"
    using a m by (simp_all add: codes_table_columns)
  then have "getitem ''AGENCY_CODE'' df' = Inr [Num 1, Num 0]"
    "getitem ''MERCHANT_CODE'' df' = Inr [Num 0, Num 0]"
    using ac mc by (simp_all add: cat_codes_police_health)
  then show ?thesis
    using f codes_table_shape by (auto simp: cat_codes_police_health)
qed

text \<open>
  Claim C5 as stated fails: on a table whose first row has agency \<open>Police\<close> and whose
  second row has agency \<open>Health\<close>, the code of the first row is 1 and that of the
  second is 0, while numbering by first appearance gives 0 and 1.
\<close>

theorem category_codes_counterexample:
  "getitem ''AGENCY_NAME'' codes_table = Inr [Str ''Police'', Str ''Health''] \<and>
   bind_exn (stage_features demo_env codes_table) (getitem ''AGENCY_CODE'') = Inr [Num 1, Num 0] \<and>
   first_seen_codes [Str ''Police'', Str ''Health''] = [0, 1]"
proof -
  have "getitem ''AGENCY_CODE'' (features demo_env codes_table) = Inr [Num 1, Num 0]"
    using code_columns_features(1) [OF codes_table_shape, of demo_env] codes_table_columns(1)
    by (simp add: getitem_column codes_table_shape canonical_cols_def code_cells_def
        cat_codes_police_health)
  moreover have "first_seen_codes [Str ''Police'', Str ''Health''] = [0, 1]"
    by (simp add: first_seen_codes_def first_seen_def)
  ultimately show ?thesis
    by (simp add: stage_features_eq [OF codes_table_shape] codes_table_columns)
qed

end
